theory Spec2Isabelle
  imports Complex_Main
begin

section \<open>PyLag: a shallow embedding of the particle tracking core\<close>

text \<open>
  The development follows the Cython sources: the RK4 integrator
  (\<^verbatim>\<open>pylag/integrator.pyx\<close>), the FVCOM and GOTM data readers
  (\<^verbatim>\<open>pylag/fvcom_data_reader.pyx\<close>, \<^verbatim>\<open>pylag/integrator.pyx\<close>) and the two
  offline particle tracking models (\<^verbatim>\<open>pylag/model.pyx\<close>).

  Conventions.
  \<^item> \<^verbatim>\<open>DTYPE_FLOAT_t\<close> is modelled by \<^typ>\<open>real\<close> (rounding is not modelled),
    \<^verbatim>\<open>DTYPE_INT_t\<close> by \<^typ>\<open>int\<close>.
  \<^item> A Python exception is a value \<open>Inl e\<close>; a call that never returns is \<open>None\<close>.
    So every fallible call has a result of type \<open>(error + 'a) option\<close>.
  \<^item> Objects mutated in place are passed in and returned.
  \<^item> Collaborators that the sources only call through an interface (the data reader
    seen by the models and by the integrator, the random walk models, the boundary
    condition calculators, the file mediator) are records of functions.
\<close>

subsection \<open>Exceptions and results\<close>

datatype error =
    ValueError
  | RuntimeError
  | IndexError
  | UnboundLocalError

type_synonym 'a res = "(error + 'a) option"

definition rbind :: "'a res \<Rightarrow> ('a \<Rightarrow> 'b res) \<Rightarrow> 'b res" where
  "rbind m f =
     (case m of
        None \<Rightarrow> None
      | Some (Inl e) \<Rightarrow> Some (Inl e)
      | Some (Inr v) \<Rightarrow> f v)"

definition ebind :: "error + 'a \<Rightarrow> ('a \<Rightarrow> error + 'b) \<Rightarrow> error + 'b" where
  "ebind m f = (case m of Inl e \<Rightarrow> Inl e | Inr v \<Rightarrow> f v)"

subsection \<open>Particles\<close>

text \<open>
  The particle attributes read and written by \<^verbatim>\<open>RK4Integrator.advect\<close>,
  \<^verbatim>\<open>FVCOMOPTModel\<close> and \<^verbatim>\<open>GOTMOPTModel\<close>.
\<close>

record particle =
  group_id :: int
  xpos :: real
  ypos :: real
  zpos :: real
  host_horizontal_elem :: int
  host_z_layer :: int
  in_domain :: bool

subsection \<open>RK4 advection (\<^verbatim>\<open>RK4Integrator.advect\<close>)\<close>

text \<open>
  The data reader interface of \<^verbatim>\<open>data_reader.pxd\<close> as the integrator uses it:
  \<^verbatim>\<open>find_host(xpos, ypos, guess)\<close> returns the host element, \<open>-1\<close> when the position
  lies outside of the domain; \<^verbatim>\<open>get_velocity(time, xpos, ypos, zpos, host, vel)\<close>
  fills \<^verbatim>\<open>vel\<close>.
\<close>

record data_reader =
  dr_find_host :: "real \<Rightarrow> real \<Rightarrow> int \<Rightarrow> int res"
  dr_get_velocity :: "real \<Rightarrow> real \<Rightarrow> real \<Rightarrow> real \<Rightarrow> int \<Rightarrow> (real \<times> real \<times> real) res"

text \<open>
  \<^verbatim>\<open>advect(self, time, particle, data_reader)\<close>: the particle is written only by the
  last four assignments, after every call that can fail, so an exception leaves it
  as it was; a plain \<^verbatim>\<open>return\<close> hands back the particle unchanged.
\<close>

definition advect :: "data_reader \<Rightarrow> real \<Rightarrow> real \<Rightarrow> particle \<Rightarrow> particle res" where
  "advect data_reader time_step time particle =
    \<comment> \<open>Stage 1\<close>
    (let t = time;
         x1 = xpos particle;
         y1 = ypos particle;
         z1 = zpos particle;
         host = host_horizontal_elem particle
     in rbind (dr_get_velocity data_reader t x1 y1 z1 host) (\<lambda>(u1, v1, w1).
    let k1_0 = time_step * u1; k1_1 = time_step * v1; k1_2 = time_step * w1;
    \<comment> \<open>Stage 2\<close>
        t = time + 0.5 * time_step;
        x2 = xpos particle + 0.5 * k1_0;
        y2 = ypos particle + 0.5 * k1_1;
        z2 = zpos particle + 0.5 * k1_2
     in rbind (dr_find_host data_reader x2 y2 host) (\<lambda>host.
    if host = -1 then Some (Inr particle) else
    rbind (dr_get_velocity data_reader t x2 y2 z2 host) (\<lambda>(u2, v2, w2).
    let k2_0 = time_step * u2; k2_1 = time_step * v2; k2_2 = time_step * w2;
    \<comment> \<open>Stage 3\<close>
        t = time + 0.5 * time_step;
        x3 = xpos particle + 0.5 * k2_0;
        y3 = ypos particle + 0.5 * k2_1;
        z3 = zpos particle + 0.5 * k2_2
     in rbind (dr_find_host data_reader x3 y3 host) (\<lambda>host.
    if host = -1 then Some (Inr particle) else
    rbind (dr_get_velocity data_reader t x3 y3 z3 host) (\<lambda>(u3, v3, w3).
    let k3_0 = time_step * u3; k3_1 = time_step * v3; k3_2 = time_step * w3;
    \<comment> \<open>Stage 4\<close>
        t = time + time_step;
        x4 = xpos particle + k3_0;
        y4 = ypos particle + k3_1;
        z4 = zpos particle + k3_2
     in rbind (dr_find_host data_reader x4 y4 host) (\<lambda>host.
    if host = -1 then Some (Inr particle) else
    rbind (dr_get_velocity data_reader t x4 y4 z4 host) (\<lambda>(u4, v4, w4).
    let k4_0 = time_step * u4; k4_1 = time_step * v4; k4_2 = time_step * w4;
    \<comment> \<open>Calculate the new position\<close>
        x5 = xpos particle + (k1_0 + 2.0 * k2_0 + 2.0 * k3_0 + k4_0) / 6.0;
        y5 = ypos particle + (k1_1 + 2.0 * k2_1 + 2.0 * k3_1 + k4_1) / 6.0;
        z5 = zpos particle + (k1_2 + 2.0 * k2_2 + 2.0 * k3_2 + k4_2) / 6.0
     in rbind (dr_find_host data_reader x5 y5 host) (\<lambda>host.
    if host = -1 then Some (Inr particle) else
    \<comment> \<open>Update the particle's position\<close>
    Some (Inr (particle\<lparr>xpos := x5, ypos := y5, zpos := z5,
                        host_horizontal_elem := host\<rparr>)))))))))))"

text \<open>
  The analytic reader of the integrator tests: \<^verbatim>\<open>find_host\<close> returns 0 and the
  velocity is \<open>(x, 1.5 y, 0)\<close>.
\<close>

definition AnalyticDataReader :: data_reader where
  "AnalyticDataReader =
     \<lparr> dr_find_host = (\<lambda>xpos ypos guess. Some (Inr 0)),
       dr_get_velocity = (\<lambda>time xpos ypos zpos host. Some (Inr (xpos, 1.5 * ypos, 0.0))) \<rparr>"

text \<open>
  A reader with the same velocity field whose domain excludes \<open>x > 1\<close> and the
  strip \<open>0.94 < x < 0.95\<close>; used to exercise each early return of \<open>advect\<close>.
\<close>

definition StripDataReader :: data_reader where
  "StripDataReader =
     \<lparr> dr_find_host = (\<lambda>xpos ypos guess.
          Some (Inr (if xpos > 1 \<or> (47/50 < xpos \<and> xpos < 19/20) then -1 else 0))),
       dr_get_velocity = (\<lambda>time xpos ypos zpos host. Some (Inr (xpos, 1.5 * ypos, 0.0))) \<rparr>"

text \<open>
  The particle that \<^verbatim>\<open>MockRK4Integrator.advect\<close> builds for a position: group 0,
  host element 0, layer 0, in the domain.
\<close>

definition mock_particle :: "real \<Rightarrow> real \<Rightarrow> real \<Rightarrow> particle" where
  "mock_particle x y z =
     \<lparr>group_id = 0, xpos = x, ypos = y, zpos = z, host_horizontal_elem = 0,
      host_z_layer = 0, in_domain = True\<rparr>"

subsection \<open>The offline particle tracking models (\<^verbatim>\<open>model.pyx\<close>)\<close>

text \<open>
  \<^verbatim>\<open>Delta\<close> accumulates the displacement of one particle over one step.
\<close>

record delta =
  delta_x :: real
  delta_y :: real
  delta_z :: real

text \<open>
  Modelled from the spec: \<^verbatim>\<open>pylag.delta.reset\<close> is not among the sources; ``Delta:
  accumulator for a single step \<open>(dx, dy, dz)\<close>, reset before each step''.
\<close>

definition reset :: delta where
  "reset = \<lparr>delta_x = 0, delta_y = 0, delta_z = 0\<rparr>"

text \<open>
  The data reader as \<^verbatim>\<open>FVCOMOPTModel\<close> and \<^verbatim>\<open>GOTMOPTModel\<close> call it:
  \<^verbatim>\<open>find_host(x_old, y_old, x_new, y_new, guess)\<close> returns \<open>(flag, host)\<close> with flag
  \<open>0\<close> in the domain, \<open>-1\<close> for a land boundary crossing and \<open>-2\<close> for an open
  boundary crossing; \<^verbatim>\<open>find_host_using_local_search(x, y, guess)\<close> returns
  \<open>(flag, host)\<close>; \<^verbatim>\<open>find_host_using_global_search(x, y)\<close> returns the host;
  \<^verbatim>\<open>get_zmin\<close>, \<^verbatim>\<open>get_zmax(time, x, y, host)\<close>;
  \<^verbatim>\<open>find_zlayer(time, x, y, z, host, guess)\<close>.
\<close>

record model_reader =
  mr_find_host :: "real \<Rightarrow> real \<Rightarrow> real \<Rightarrow> real \<Rightarrow> int \<Rightarrow> (int \<times> int) res"
  mr_find_host_using_local_search :: "real \<Rightarrow> real \<Rightarrow> int \<Rightarrow> (int \<times> int) res"
  mr_find_host_using_global_search :: "real \<Rightarrow> real \<Rightarrow> int res"
  mr_get_zmin :: "real \<Rightarrow> real \<Rightarrow> real \<Rightarrow> int \<Rightarrow> real res"
  mr_get_zmax :: "real \<Rightarrow> real \<Rightarrow> real \<Rightarrow> int \<Rightarrow> real res"
  mr_find_zlayer :: "real \<Rightarrow> real \<Rightarrow> real \<Rightarrow> real \<Rightarrow> int \<Rightarrow> int \<Rightarrow> int res"

text \<open>
  The attributes of \<^verbatim>\<open>FVCOMOPTModel\<close>. The integrator and the random walk models
  may be absent (\<^verbatim>\<open>None\<close>); \<open>update\<close> tests for that. The integrator's
  \<^verbatim>\<open>advect(time, particle_ptr, data_reader, &delta_X)\<close> returns a host error flag and
  writes the delta; a random walk's
  \<^verbatim>\<open>random_walk(time, particle_ptr, data_reader, &delta_X)\<close> writes the delta and
  draws from a random number source, whose state is \<open>'g\<close>. The boundary condition
  calculators are called without a test, so the model covers a run in which both are
  configured: \<^verbatim>\<open>horiz_bc_calculator.apply(data_reader, x_old, y_old, x_new, y_new, last_host)\<close>
  returns the corrected position and \<^verbatim>\<open>vert_bc_calculator.apply(zpos, zmin, zmax)\<close>
  the corrected depth. \<open>depth_coordinates\<close> is the configuration entry
  \<^verbatim>\<open>SIMULATION.depth_coordinates\<close>; \<open>sigma_to_cartesian_coords\<close> is the helper of
  \<^verbatim>\<open>pylag.math\<close> (not among the sources) and \<open>default_particle\<close> holds the attributes
  of a \<^verbatim>\<open>ParticleSmartPtr\<close> built without arguments.
\<close>

record 'g fvcom_model =
  data_reader :: model_reader
  num_integrator :: "(real \<Rightarrow> particle \<Rightarrow> model_reader \<Rightarrow> delta \<Rightarrow> (int \<times> delta) res) option"
  vert_rand_walk_model ::
    "('g \<Rightarrow> real \<Rightarrow> particle \<Rightarrow> model_reader \<Rightarrow> delta \<Rightarrow> (delta \<times> 'g) res) option"
  horiz_rand_walk_model ::
    "('g \<Rightarrow> real \<Rightarrow> particle \<Rightarrow> model_reader \<Rightarrow> delta \<Rightarrow> (delta \<times> 'g) res) option"
  horiz_bc_calculator ::
    "model_reader \<Rightarrow> real \<Rightarrow> real \<Rightarrow> real \<Rightarrow> real \<Rightarrow> int \<Rightarrow> (real \<times> real) res"
  vert_bc_calculator :: "real \<Rightarrow> real \<Rightarrow> real \<Rightarrow> real res"
  time_step :: real
  depth_coordinates :: string
  sigma_to_cartesian_coords :: "real \<Rightarrow> real \<Rightarrow> real \<Rightarrow> real"
  default_particle :: particle

text \<open>
  \<^verbatim>\<open>FVCOMOPTModel.update\<close>, the body of the loop for one particle in the domain, in the
  order of the source. First the displacements (\<^verbatim>\<open>reset\<close>, advection, vertical and
  horizontal random walk). The result is \<open>None\<close> when the integrator reports host
  error \<open>-2\<close>: the particle is then flagged and the random walks are skipped.
\<close>

definition sum_contributions ::
  "'g fvcom_model \<Rightarrow> real \<Rightarrow> particle \<Rightarrow> 'g \<Rightarrow> (delta option \<times> 'g) res" where
  "sum_contributions M time particle g =
    (let delta_X = reset
     in rbind (case num_integrator M of
                 None \<Rightarrow> Some (Inr (False, delta_X))
               | Some advect' \<Rightarrow>
                   rbind (advect' time particle (data_reader M) delta_X)
                     (\<lambda>(host_err, delta_X). Some (Inr (host_err = -2, delta_X))))
          (\<lambda>(left, delta_X).
     if left then Some (Inr (None, g)) else
     rbind (case vert_rand_walk_model M of
              None \<Rightarrow> Some (Inr (delta_X, g))
            | Some random_walk \<Rightarrow> random_walk g time particle (data_reader M) delta_X)
          (\<lambda>(delta_X, g).
     rbind (case horiz_rand_walk_model M of
              None \<Rightarrow> Some (Inr (delta_X, g))
            | Some random_walk \<Rightarrow> random_walk g time particle (data_reader M) delta_X)
          (\<lambda>(delta_X, g). Some (Inr (Some delta_X, g))))))"

text \<open>
  The land boundary loop \<^verbatim>\<open>while flag == -1: xpos, ypos = horiz_bc_calculator.apply(...);
  flag, host = find_host(...)\<close> on the loop variables \<open>(flag, host, xpos, ypos)\<close>. The
  source puts no bound on the number of iterations, so the loop may not return.
\<close>

partial_function (option) land_boundary_loop ::
  "'g fvcom_model \<Rightarrow> particle \<Rightarrow> int \<times> int \<times> real \<times> real \<Rightarrow> (int \<times> int \<times> real \<times> real) res" where
  "land_boundary_loop M particle s =
     (case s of (flag, host, xpos', ypos') \<Rightarrow>
        if flag = -1 then
          (case horiz_bc_calculator M (data_reader M) (xpos particle) (ypos particle)
                  xpos' ypos' (host_horizontal_elem particle) of
             None \<Rightarrow> None
           | Some (Inl e) \<Rightarrow> Some (Inl e)
           | Some (Inr (xpos'', ypos'')) \<Rightarrow>
               (case mr_find_host (data_reader M) (xpos particle) (ypos particle)
                       xpos'' ypos'' (host_horizontal_elem particle) of
                  None \<Rightarrow> None
                | Some (Inl e) \<Rightarrow> Some (Inl e)
                | Some (Inr (flag', host')) \<Rightarrow>
                    land_boundary_loop M particle (flag', host', xpos'', ypos'')))
        else Some (Inr (flag, host, xpos', ypos')))"

text \<open>
  One pass through the body of the land boundary loop, and \<open>n\<close> passes in a row;
  these name the states the loop goes through.
\<close>

definition land_boundary_pass ::
  "'g fvcom_model \<Rightarrow> particle \<Rightarrow> int \<times> int \<times> real \<times> real \<Rightarrow> (int \<times> int \<times> real \<times> real) res" where
  "land_boundary_pass M particle s =
     (case s of (flag, host, xpos', ypos') \<Rightarrow>
        rbind (horiz_bc_calculator M (data_reader M) (xpos particle) (ypos particle)
                 xpos' ypos' (host_horizontal_elem particle))
          (\<lambda>(xpos'', ypos'').
        rbind (mr_find_host (data_reader M) (xpos particle) (ypos particle)
                 xpos'' ypos'' (host_horizontal_elem particle))
          (\<lambda>(flag', host'). Some (Inr (flag', host', xpos'', ypos'')))))"

primrec land_boundary_passes ::
  "nat \<Rightarrow> 'g fvcom_model \<Rightarrow> particle \<Rightarrow> int \<times> int \<times> real \<times> real \<Rightarrow> (int \<times> int \<times> real \<times> real) res" where
  "land_boundary_passes 0 M particle s = Some (Inr s)"
| "land_boundary_passes (Suc n) M particle s =
     rbind (land_boundary_pass M particle s) (land_boundary_passes n M particle)"

text \<open>
  The tentative position, the first \<^verbatim>\<open>find_host\<close> and the land boundary loop.
\<close>

definition locate_new_position ::
  "'g fvcom_model \<Rightarrow> particle \<Rightarrow> delta \<Rightarrow> (int \<times> int \<times> real \<times> real) res" where
  "locate_new_position M particle delta_X =
    (let xpos' = xpos particle + delta_x delta_X;
         ypos' = ypos particle + delta_y delta_X
     in rbind (mr_find_host (data_reader M) (xpos particle) (ypos particle) xpos' ypos'
                 (host_horizontal_elem particle))
          (\<lambda>(flag, host). land_boundary_loop M particle (flag, host, xpos', ypos')))"

text \<open>
  The open boundary check and the update of the particle's position. A flag other
  than \<open>-2\<close> and \<open>0\<close> raises \<^verbatim>\<open>ValueError\<close>.
\<close>

definition commit_position ::
  "'g fvcom_model \<Rightarrow> real \<Rightarrow> particle \<Rightarrow> real \<Rightarrow> int \<times> int \<times> real \<times> real \<Rightarrow> particle res" where
  "commit_position M time particle zpos' s =
     (case s of (flag, host, xpos', ypos') \<Rightarrow>
        if flag = -2 then Some (Inr (particle\<lparr>in_domain := False\<rparr>))
        else if flag = 0 then
          rbind (mr_get_zmin (data_reader M) (time + time_step M) xpos' ypos' host) (\<lambda>zmin.
          rbind (mr_get_zmax (data_reader M) (time + time_step M) xpos' ypos' host) (\<lambda>zmax.
          rbind (if zpos' < zmin \<or> zpos' > zmax
                 then vert_bc_calculator M zpos' zmin zmax
                 else Some (Inr zpos')) (\<lambda>zpos''.
          let old_host_z_layer = host_z_layer particle
          in rbind (mr_find_zlayer (data_reader M) (time + time_step M) xpos' ypos' zpos''
                      host old_host_z_layer) (\<lambda>host_z_layer'.
          Some (Inr (particle\<lparr>xpos := xpos', ypos := ypos', zpos := zpos'',
                              host_horizontal_elem := host,
                              host_z_layer := host_z_layer'\<rparr>))))))
        else Some (Inl ValueError))"

definition fvcom_update_particle ::
  "'g fvcom_model \<Rightarrow> real \<Rightarrow> particle \<Rightarrow> 'g \<Rightarrow> (particle \<times> 'g) res" where
  "fvcom_update_particle M time particle g =
     (if in_domain particle then
        rbind (sum_contributions M time particle g) (\<lambda>(d, g).
          case d of
            None \<Rightarrow> Some (Inr (particle\<lparr>in_domain := False\<rparr>, g))
          | Some delta_X \<Rightarrow>
              rbind (locate_new_position M particle delta_X) (\<lambda>s.
              rbind (commit_position M time particle (zpos particle + delta_z delta_X) s)
                (\<lambda>particle'. Some (Inr (particle', g)))))
      else Some (Inr (particle, g)))"

text \<open>
  \<^verbatim>\<open>FVCOMOPTModel.update\<close>: the loop over \<^verbatim>\<open>particle_ptrs\<close>. The particles are
  updated in place, so an exception raised for one particle leaves the earlier ones
  updated and the later ones untouched: the result is the particle set together with
  the exception, or with the state of the random number source.
\<close>

fun fvcom_update ::
  "'g fvcom_model \<Rightarrow> real \<Rightarrow> particle list \<Rightarrow> 'g \<Rightarrow> (particle list \<times> (error + 'g)) option" where
  "fvcom_update M time [] g = Some ([], Inr g)"
| "fvcom_update M time (particle # particle_ptrs) g =
     (case fvcom_update_particle M time particle g of
        None \<Rightarrow> None
      | Some (Inl e) \<Rightarrow> Some (particle # particle_ptrs, Inl e)
      | Some (Inr (particle', g')) \<Rightarrow>
          (case fvcom_update M time particle_ptrs g' of
             None \<Rightarrow> None
           | Some (particle_ptrs', r) \<Rightarrow> Some (particle' # particle_ptrs', r)))"

text \<open>
  \<^verbatim>\<open>FVCOMOPTModel.get_diagnostics\<close>: one entry per particle of \<^verbatim>\<open>particle_ptrs\<close> in
  each of the six lists.
\<close>

record diags =
  diag_xpos :: "real list"
  diag_ypos :: "real list"
  diag_zpos :: "real list"
  diag_host_horizontal_elem :: "int list"
  diag_h :: "real list"
  diag_zeta :: "real list"

fun get_diagnostics_loop :: "model_reader \<Rightarrow> real \<Rightarrow> particle list \<Rightarrow> diags \<Rightarrow> diags res" where
  "get_diagnostics_loop R time [] d = Some (Inr d)"
| "get_diagnostics_loop R time (particle # particle_ptrs) d =
     (let d = d\<lparr>diag_xpos := diag_xpos d @ [xpos particle],
                diag_ypos := diag_ypos d @ [ypos particle],
                diag_zpos := diag_zpos d @ [zpos particle],
                diag_host_horizontal_elem :=
                  diag_host_horizontal_elem d @ [host_horizontal_elem particle]\<rparr>
      in rbind (mr_get_zmin R time (xpos particle) (ypos particle)
                  (host_horizontal_elem particle)) (\<lambda>h.
         rbind (mr_get_zmax R time (xpos particle) (ypos particle)
                  (host_horizontal_elem particle)) (\<lambda>zeta.
         get_diagnostics_loop R time particle_ptrs
           (d\<lparr>diag_h := diag_h d @ [h], diag_zeta := diag_zeta d @ [zeta]\<rparr>))))"

definition fvcom_get_diagnostics :: "'g fvcom_model \<Rightarrow> real \<Rightarrow> particle list \<Rightarrow> diags res" where
  "fvcom_get_diagnostics M time particle_ptrs =
     get_diagnostics_loop (data_reader M) time particle_ptrs
       \<lparr>diag_xpos = [], diag_ypos = [], diag_zpos = [], diag_host_horizontal_elem = [],
        diag_h = [], diag_zeta = []\<rparr>"







text \<open>
  \<^verbatim>\<open>GOTMOPTModel\<close>: a data reader and a vertical random walk model.
\<close>

record 'g gotm_model =
  gotm_data_reader :: model_reader
  gotm_vert_rand_walk_model ::
    "('g \<Rightarrow> real \<Rightarrow> particle \<Rightarrow> model_reader \<Rightarrow> delta \<Rightarrow> (delta \<times> 'g) res) option"

text \<open>
  The reflecting surface and bottom boundary condition of \<^verbatim>\<open>GOTMOPTModel.update\<close>
  and the check that follows it: one reflection, then \<^verbatim>\<open>ValueError\<close> when the
  reflected position is still outside of \<open>[zmin, zmax]\<close>.
\<close>

definition gotm_reflect :: "real \<Rightarrow> real \<Rightarrow> real \<Rightarrow> error + real" where
  "gotm_reflect zpos' zmin zmax =
     (let zpos'' = (if zpos' < zmin then zmin + zmin - zpos'
                    else if zpos' > zmax then zmax + zmax - zpos'
                    else zpos')
      in if zpos'' < zmin then Inl ValueError
         else if zpos'' > zmax then Inl ValueError
         else Inr zpos'')"

definition gotm_update_particle ::
  "'g gotm_model \<Rightarrow> real \<Rightarrow> particle \<Rightarrow> 'g \<Rightarrow> (particle \<times> 'g) res" where
  "gotm_update_particle M time particle g =
     (if in_domain particle then
        let delta_X = reset
        in rbind (case gotm_vert_rand_walk_model M of
                    None \<Rightarrow> Some (Inr (delta_X, g))
                  | Some random_walk \<Rightarrow>
                      random_walk g time particle (gotm_data_reader M) delta_X)
             (\<lambda>(delta_X, g).
        let zpos' = zpos particle + delta_z delta_X
        in rbind (mr_get_zmin (gotm_data_reader M) time 0.0 0.0 0) (\<lambda>zmin.
           rbind (mr_get_zmax (gotm_data_reader M) time 0.0 0.0 0) (\<lambda>zmax.
           case gotm_reflect zpos' zmin zmax of
             Inl e \<Rightarrow> Some (Inl e)
           | Inr zpos'' \<Rightarrow>
               rbind (mr_find_zlayer (gotm_data_reader M) time (xpos particle)
                        (ypos particle) zpos'' (host_horizontal_elem particle)
                        (host_z_layer particle)) (\<lambda>host_z_layer'.
               Some (Inr (particle\<lparr>zpos := zpos'', host_z_layer := host_z_layer'\<rparr>, g))))))
      else Some (Inr (particle, g)))"

fun gotm_update ::
  "'g gotm_model \<Rightarrow> real \<Rightarrow> particle list \<Rightarrow> 'g \<Rightarrow> (particle list \<times> (error + 'g)) option" where
  "gotm_update M time [] g = Some ([], Inr g)"
| "gotm_update M time (particle # particle_ptrs) g =
     (case gotm_update_particle M time particle g of
        None \<Rightarrow> None
      | Some (Inl e) \<Rightarrow> Some (particle # particle_ptrs, Inl e)
      | Some (Inr (particle', g')) \<Rightarrow>
          (case gotm_update M time particle_ptrs g' of
             None \<Rightarrow> None
           | Some (particle_ptrs', r) \<Rightarrow> Some (particle' # particle_ptrs', r)))"

subsection \<open>Arrays and interpolation kernels\<close>

text \<open>
  A read of a typed memory view with Cython's default directives (bounds check and
  wrap-around on): a negative index counts from the end, an index out of range raises
  \<^verbatim>\<open>IndexError\<close>. A two-dimensional view is a list of rows.
\<close>

definition get1 :: "'a list \<Rightarrow> int \<Rightarrow> error + 'a" where
  "get1 xs i =
     (if 0 \<le> i \<and> i < int (length xs) then Inr (xs ! nat i)
      else if - int (length xs) \<le> i \<and> i < 0 then Inr (xs ! nat (int (length xs) + i))
      else Inl IndexError)"

definition get2 :: "'a list list \<Rightarrow> int \<Rightarrow> int \<Rightarrow> error + 'a" where
  "get2 xss i j = ebind (get1 xss i) (\<lambda>row. get1 row j)"

text \<open>
  Modelled from the spec: the module \<^verbatim>\<open>interpolation\<close> is not among the sources.
  \<open>get_linear_fraction\<close> is the fraction \<open>(t - t_last) / (t_next - t_last)\<close> of section
  4.B, not clamped (the callers test it against 0 and 1 themselves);
  \<open>get_linear_fraction_safe\<close> raises when the fraction is outside of \<open>[0, 1]\<close>
  (section 7, \<^verbatim>\<open>OutOfRange\<close>); \<open>linear_interp\<close> is linear interpolation between two
  values; \<open>interpolate_within_element\<close> is \<open>\<Sum> f_vertex[i] * \<phi>[i]\<close>;
  \<open>get_barycentric_coords\<close> gives the standard area ratios for the triangle with
  corners \<open>(x_tri[i], y_tri[i])\<close>.
\<close>

definition get_linear_fraction :: "real \<Rightarrow> real \<Rightarrow> real \<Rightarrow> real" where
  "get_linear_fraction var var1 var2 = (var - var1) / (var2 - var1)"

definition get_linear_fraction_safe :: "real \<Rightarrow> real \<Rightarrow> real \<Rightarrow> error + real" where
  "get_linear_fraction_safe var var1 var2 =
     (let frac = (var - var1) / (var2 - var1)
      in if frac \<ge> 0 \<and> frac \<le> 1 then Inr frac else Inl ValueError)"

definition linear_interp :: "real \<Rightarrow> real \<Rightarrow> real \<Rightarrow> real" where
  "linear_interp fraction val_last val_next = (1 - fraction) * val_last + fraction * val_next"

definition interpolate_within_element :: "real \<times> real \<times> real \<Rightarrow> real \<times> real \<times> real \<Rightarrow> real" where
  "interpolate_within_element var phi =
     (case var of (var0, var1, var2) \<Rightarrow>
      case phi of (phi0, phi1, phi2) \<Rightarrow> var0 * phi0 + var1 * phi1 + var2 * phi2)"

definition get_barycentric_coords ::
  "real \<Rightarrow> real \<Rightarrow> real \<times> real \<times> real \<Rightarrow> real \<times> real \<times> real \<Rightarrow> real \<times> real \<times> real" where
  "get_barycentric_coords xpos' ypos' x_tri y_tri =
     (case x_tri of (x1, x2, x3) \<Rightarrow>
      case y_tri of (y1, y2, y3) \<Rightarrow>
        let det = (y2 - y3) * (x1 - x3) + (x3 - x2) * (y1 - y3);
            phi0 = ((y2 - y3) * (xpos' - x3) + (x3 - x2) * (ypos' - y3)) / det;
            phi1 = ((y3 - y1) * (xpos' - x3) + (x1 - x3) * (ypos' - y3)) / det
        in (phi0, phi1, 1 - phi0 - phi1))"

text \<open>
  Modelled from the spec: \<^verbatim>\<open>constants.pxi\<close> is not among the sources; section 4.A
  gives \<open>\<epsilon> = 1e-10\<close>.
\<close>

definition EPSILON :: real where
  "EPSILON = 1 / 10 ^ 10"

subsection \<open>The FVCOM data reader (\<^verbatim>\<open>fvcom_data_reader.pyx\<close>)\<close>

text \<open>
  The attributes of \<^verbatim>\<open>FVCOMDataReader\<close>: the grid, the two snapshots of every time
  dependent field, the two time points, and the state of the mediator that reads the
  files.
\<close>

record 'm fvcom_reader =
  fv_mediator :: 'm
  fv_n_elems :: int
  fv_n_nodes :: int
  fv_n_siglay :: int
  fv_n_siglev :: int
  fv_nv :: "int list list"
  fv_nbe :: "int list list"
  fv_x :: "real list"
  fv_y :: "real list"
  fv_xc :: "real list"
  fv_yc :: "real list"
  fv_a1u :: "real list list"
  fv_a2u :: "real list list"
  fv_siglev :: "real list list"
  fv_siglay :: "real list list"
  fv_h :: "real list"
  fv_zeta_last :: "real list"
  fv_zeta_next :: "real list"
  fv_u_last :: "real list list"
  fv_u_next :: "real list list"
  fv_v_last :: "real list list"
  fv_v_next :: "real list list"
  fv_omega_last :: "real list list"
  fv_omega_next :: "real list list"
  fv_kh_last :: "real list list"
  fv_kh_next :: "real list list"
  fv_viscofh_last :: "real list list"
  fv_viscofh_next :: "real list list"
  fv_time_last :: real
  fv_time_next :: real

text \<open>
  The mediator: \<^verbatim>\<open>update_reading_frames(time)\<close> moves the reading frame and can fail;
  the getters return the time points and the field arrays (one-dimensional for
  \<^verbatim>\<open>zeta\<close>, two-dimensional for the others) at the last and the next time index.
\<close>

record 'm mediator =
  update_reading_frames :: "real \<Rightarrow> 'm \<Rightarrow> error + 'm"
  get_time_at_last_time_index :: "'m \<Rightarrow> real"
  get_time_at_next_time_index :: "'m \<Rightarrow> real"
  get_var1_at_last_time_index :: "string \<Rightarrow> 'm \<Rightarrow> real list"
  get_var1_at_next_time_index :: "string \<Rightarrow> 'm \<Rightarrow> real list"
  get_var2_at_last_time_index :: "string \<Rightarrow> 'm \<Rightarrow> real list list"
  get_var2_at_next_time_index :: "string \<Rightarrow> 'm \<Rightarrow> real list list"

definition read_time_dependent_vars :: "'m mediator \<Rightarrow> 'm fvcom_reader \<Rightarrow> 'm fvcom_reader" where
  "read_time_dependent_vars Med r =
     (let m = fv_mediator r
      in r\<lparr>fv_time_last := get_time_at_last_time_index Med m,
            fv_time_next := get_time_at_next_time_index Med m,
            fv_zeta_last := get_var1_at_last_time_index Med ''zeta'' m,
            fv_zeta_next := get_var1_at_next_time_index Med ''zeta'' m,
            fv_u_last := get_var2_at_last_time_index Med ''u'' m,
            fv_u_next := get_var2_at_next_time_index Med ''u'' m,
            fv_v_last := get_var2_at_last_time_index Med ''v'' m,
            fv_v_next := get_var2_at_next_time_index Med ''v'' m,
            fv_omega_last := get_var2_at_last_time_index Med ''omega'' m,
            fv_omega_next := get_var2_at_next_time_index Med ''omega'' m,
            fv_kh_last := get_var2_at_last_time_index Med ''kh'' m,
            fv_kh_next := get_var2_at_next_time_index Med ''kh'' m,
            fv_viscofh_last := get_var2_at_last_time_index Med ''viscofh'' m,
            fv_viscofh_next := get_var2_at_next_time_index Med ''viscofh'' m\<rparr>)"

text \<open>\<^verbatim>\<open>FVCOMDataReader.read_data\<close>.\<close>

definition read_data :: "'m mediator \<Rightarrow> real \<Rightarrow> 'm fvcom_reader \<Rightarrow> error + 'm fvcom_reader" where
  "read_data Med time r =
     (let time_fraction = get_linear_fraction time (fv_time_last r) (fv_time_next r)
      in if time_fraction < 0.0 \<or> time_fraction \<ge> 1.0 then
           ebind (update_reading_frames Med time (fv_mediator r)) (\<lambda>m'.
             Inr (read_time_dependent_vars Med (r\<lparr>fv_mediator := m'\<rparr>)))
         else Inr r)"

text \<open>
  The values of a nodal array at the three vertices of an element:
  \<^verbatim>\<open>for i in xrange(N_VERTICES): vertex = self._nv[i,host]; ...[i] = arr[vertex]\<close>.
\<close>

definition at_vertices :: "'m fvcom_reader \<Rightarrow> real list \<Rightarrow> int \<Rightarrow> error + real \<times> real \<times> real" where
  "at_vertices r arr host =
     ebind (get2 (fv_nv r) 0 host) (\<lambda>vertex0. ebind (get1 arr vertex0) (\<lambda>a0.
     ebind (get2 (fv_nv r) 1 host) (\<lambda>vertex1. ebind (get1 arr vertex1) (\<lambda>a1.
     ebind (get2 (fv_nv r) 2 host) (\<lambda>vertex2. ebind (get1 arr vertex2) (\<lambda>a2.
     Inr (a0, a1, a2)))))))"

text \<open>\<^verbatim>\<open>_get_phi\<close>: the barycentric coordinates of a point in an element.\<close>

definition get_phi :: "'m fvcom_reader \<Rightarrow> real \<Rightarrow> real \<Rightarrow> int \<Rightarrow> error + real \<times> real \<times> real" where
  "get_phi r xpos' ypos' host =
     ebind (at_vertices r (fv_x r) host) (\<lambda>x_tri.
     ebind (at_vertices r (fv_y r) host) (\<lambda>y_tri.
     Inr (get_barycentric_coords xpos' ypos' x_tri y_tri)))"

text \<open>
  \<^verbatim>\<open>find_host_using_local_search\<close>. The C variable \<^verbatim>\<open>n_host_land_boundaries\<close> is
  declared and read but never assigned; the value it happens to hold is the argument
  \<open>n_host_land_boundaries\<close>. The loop counts the land boundaries of the element into
  \<^verbatim>\<open>n_land_boundaries\<close>, which is not read afterwards. The walk may not end.
\<close>

definition count_land_boundaries :: "'m fvcom_reader \<Rightarrow> int \<Rightarrow> error + int" where
  "count_land_boundaries r guess =
     ebind (get2 (fv_nbe r) 0 guess) (\<lambda>nbe0.
     ebind (get2 (fv_nbe r) 1 guess) (\<lambda>nbe1.
     ebind (get2 (fv_nbe r) 2 guess) (\<lambda>nbe2.
     Inr ((if nbe0 = -1 then 1 else 0) + (if nbe1 = -1 then 1 else 0)
          + (if nbe2 = -1 then 1 else 0)))))"

partial_function (option) find_host_using_local_search ::
  "'m fvcom_reader \<Rightarrow> int \<Rightarrow> real \<Rightarrow> real \<Rightarrow> int \<Rightarrow> int res" where
  "find_host_using_local_search r n_host_land_boundaries xpos' ypos' guess =
     (case get_phi r xpos' ypos' guess of
        Inl e \<Rightarrow> Some (Inl e)
      | Inr (phi0, phi1, phi2) \<Rightarrow>
          let phi_test = min (min phi0 phi1) phi2;
              host_found = (phi_test \<ge> 0.0 \<or> phi_test \<ge> - EPSILON)
          in if host_found then
               (case count_land_boundaries r guess of
                  Inl e \<Rightarrow> Some (Inl e)
                | Inr n_land_boundaries \<Rightarrow>
                    if n_host_land_boundaries < 2 then Some (Inr guess)
                    else Some (Inr (-1)))
             else
               (case (if phi0 = phi_test then get2 (fv_nbe r) 0 guess
                      else if phi1 = phi_test then get2 (fv_nbe r) 1 guess
                      else if phi2 = phi_test then get2 (fv_nbe r) 2 guess
                      else Inl RuntimeError) of
                  Inl e \<Rightarrow> Some (Inl e)
                | Inr guess' \<Rightarrow>
                    if guess' = -1 then Some (Inr guess')
                    else find_host_using_local_search r n_host_land_boundaries
                           xpos' ypos' guess'))"

declare find_host_using_local_search.simps [code]

text \<open>\<^verbatim>\<open>_interp_on_sigma_layer\<close>: sigma on layer \<open>kidx\<close> at a point of the element.\<close>

definition interp_on_sigma_layer ::
  "'m fvcom_reader \<Rightarrow> real \<times> real \<times> real \<Rightarrow> int \<Rightarrow> int \<Rightarrow> error + real" where
  "interp_on_sigma_layer r phi host kidx =
     ebind (get1 (fv_siglay r) kidx) (\<lambda>siglay_k.
     ebind (at_vertices r siglay_k host) (\<lambda>sigma_nodes.
     Inr (interpolate_within_element sigma_nodes phi)))"

text \<open>
  The sigma layers that bound a depth: at or above the top layer, at or below the
  bottom layer (\<open>Boundary k_boundary\<close>), or between two layers
  (\<open>Between k_lower_layer k_upper_layer sigma_lower_layer sigma_upper_layer\<close>).
\<close>

datatype layer_position =
    Boundary int
  | Between int int real real

text \<open>
  \<^verbatim>\<open>for k in xrange(1, self._n_siglay): ...\<close>, the search of the middle of the water
  column; \<^verbatim>\<open>ValueError\<close> when the loop ends without a layer.
\<close>

fun search_middle_layers ::
  "'m fvcom_reader \<Rightarrow> real \<times> real \<times> real \<Rightarrow> int \<Rightarrow> real \<Rightarrow> int list \<Rightarrow> error + layer_position" where
  "search_middle_layers r phi host zpos' [] = Inl ValueError"
| "search_middle_layers r phi host zpos' (k # ks) =
     ebind (interp_on_sigma_layer r phi host k) (\<lambda>sigma_test.
       if zpos' \<ge> sigma_test then
         (let k_lower_layer = k; k_upper_layer = k - 1
          in ebind (interp_on_sigma_layer r phi host k_lower_layer) (\<lambda>sigma_lower_layer.
             ebind (interp_on_sigma_layer r phi host k_upper_layer) (\<lambda>sigma_upper_layer.
             Inr (Between k_lower_layer k_upper_layer sigma_lower_layer sigma_upper_layer))))
       else search_middle_layers r phi host zpos' ks)"

definition find_sigma_layers ::
  "'m fvcom_reader \<Rightarrow> real \<times> real \<times> real \<Rightarrow> int \<Rightarrow> real \<Rightarrow> error + layer_position" where
  "find_sigma_layers r phi host zpos' =
     ebind (interp_on_sigma_layer r phi host 0) (\<lambda>sigma_test.
       if zpos' \<ge> sigma_test then Inr (Boundary 0)
       else
         (let k = fv_n_siglay r - 1
          in ebind (interp_on_sigma_layer r phi host k) (\<lambda>sigma_test.
               if zpos' \<le> sigma_test then Inr (Boundary k)
               else search_middle_layers r phi host zpos' [1..fv_n_siglay r - 1])))"

text \<open>
  \<^verbatim>\<open>interp.linear_interp(time_fraction, last[k, elem], next[k, elem])\<close>: a field at an
  element centre on a layer, interpolated in time.
\<close>

definition centre_value ::
  "real \<Rightarrow> real list list \<Rightarrow> real list list \<Rightarrow> int \<Rightarrow> int \<Rightarrow> error + real" where
  "centre_value time_fraction var_last var_next k elem =
     ebind (get2 var_last k elem) (\<lambda>val_last.
     ebind (get2 var_next k elem) (\<lambda>val_next.
     Inr (linear_interp time_fraction val_last val_next)))"

text \<open>
  \<^verbatim>\<open>_interpolate_vel_between_elements\<close>, with \<^verbatim>\<open>vel_elem\<close> the values at the centre of
  the host (index 0) and of three more elements.
\<close>

definition interpolate_vel_between_elements ::
  "'m fvcom_reader \<Rightarrow> real \<Rightarrow> real \<Rightarrow> int \<Rightarrow> real \<times> real \<times> real \<times> real \<Rightarrow> error + real" where
  "interpolate_vel_between_elements r xpos' ypos' host vel_elem =
     (case vel_elem of (vel0, vel1, vel2, vel3) \<Rightarrow>
        ebind (get1 (fv_xc r) host) (\<lambda>xc_host.
        ebind (get1 (fv_yc r) host) (\<lambda>yc_host.
        let rx = xpos' - xc_host; ry = ypos' - yc_host
        in ebind (get2 (fv_a1u r) 0 host) (\<lambda>a1u0. ebind (get2 (fv_a2u r) 0 host) (\<lambda>a2u0.
           ebind (get2 (fv_a1u r) 1 host) (\<lambda>a1u1. ebind (get2 (fv_a2u r) 1 host) (\<lambda>a2u1.
           ebind (get2 (fv_a1u r) 2 host) (\<lambda>a1u2. ebind (get2 (fv_a2u r) 2 host) (\<lambda>a2u2.
           ebind (get2 (fv_a1u r) 3 host) (\<lambda>a1u3. ebind (get2 (fv_a2u r) 3 host) (\<lambda>a2u3.
           let dudx = 0.0 + vel0 * a1u0 + vel1 * a1u1 + vel2 * a1u2 + vel3 * a1u3;
               dudy = 0.0 + vel0 * a2u0 + vel1 * a2u1 + vel2 * a2u2 + vel3 * a2u3
           in Inr (vel0 + dudx * rx + dudy * ry))))))))))))"

text \<open>
  The loop \<^verbatim>\<open>for i in xrange(3): neighbour = self._nbe[i, host]; xc[j] = ...; yc[j] = ...\<close>
  of the non-boundary branches: the three neighbours, whose centre coordinates are
  read (and not used afterwards).
\<close>

definition read_neighbours :: "'m fvcom_reader \<Rightarrow> int \<Rightarrow> error + int \<times> int \<times> int" where
  "read_neighbours r host =
     ebind (get2 (fv_nbe r) 0 host) (\<lambda>neighbour1.
     ebind (get1 (fv_xc r) neighbour1) (\<lambda>xc1. ebind (get1 (fv_yc r) neighbour1) (\<lambda>yc1.
     ebind (get2 (fv_nbe r) 1 host) (\<lambda>neighbour2.
     ebind (get1 (fv_xc r) neighbour2) (\<lambda>xc2. ebind (get1 (fv_yc r) neighbour2) (\<lambda>yc2.
     ebind (get2 (fv_nbe r) 2 host) (\<lambda>neighbour3.
     ebind (get1 (fv_xc r) neighbour3) (\<lambda>xc3. ebind (get1 (fv_yc r) neighbour3) (\<lambda>yc3.
     Inr (neighbour1, neighbour2, neighbour3))))))))))"

text \<open>
  \<^verbatim>\<open>_get_uv_velocity_using_linear_least_squares_interpolation\<close>. In the branch for a
  non-boundary element and a depth between two layers, the source fills the entries
  \<open>1..3\<close> of \<^verbatim>\<open>uc1\<close>, \<^verbatim>\<open>vc1\<close>, \<^verbatim>\<open>uc2\<close> and \<^verbatim>\<open>vc2\<close> from column \<^verbatim>\<open>host\<close> of the
  velocity arrays; in the branch for a depth in a boundary layer it fills them from
  column \<^verbatim>\<open>neighbour\<close>.
\<close>

definition get_uv_velocity_using_linear_least_squares_interpolation ::
  "'m fvcom_reader \<Rightarrow> real \<Rightarrow> real \<Rightarrow> real \<Rightarrow> real \<Rightarrow> int \<Rightarrow> error + real \<times> real" where
  "get_uv_velocity_using_linear_least_squares_interpolation r time xpos' ypos' zpos' host =
     ebind (get_phi r xpos' ypos' host) (\<lambda>phi.
     ebind (find_sigma_layers r phi host zpos') (\<lambda>layers.
     let time_fraction = get_linear_fraction time (fv_time_last r) (fv_time_next r)
     in if time_fraction < 0.0 \<or> time_fraction > 1.0 then Inl ValueError else
     ebind (get2 (fv_nbe r) 0 host) (\<lambda>nbe0.
     ebind (get2 (fv_nbe r) 1 host) (\<lambda>nbe1.
     ebind (get2 (fv_nbe r) 2 host) (\<lambda>nbe2.
     let nbe_min = min (min nbe0 nbe1) nbe2;
         u_at = centre_value time_fraction (fv_u_last r) (fv_u_next r);
         v_at = centre_value time_fraction (fv_v_last r) (fv_v_next r);
         vertical = (\<lambda>sigma_lower_layer sigma_upper_layer up1 vp1 up2 vp2.
           let sigma_fraction = get_linear_fraction zpos' sigma_lower_layer sigma_upper_layer
           in if sigma_fraction < 0.0 \<or> sigma_fraction > 1.0 then Inl ValueError
              else Inr (linear_interp sigma_fraction up1 up2,
                        linear_interp sigma_fraction vp1 vp2))
     in if nbe_min < 0 then
          \<comment> \<open>Boundary element - no horizontal interpolation\<close>
          (case layers of
             Boundary k_boundary \<Rightarrow>
               ebind (u_at k_boundary host) (\<lambda>vel0.
               ebind (v_at k_boundary host) (\<lambda>vel1. Inr (vel0, vel1)))
           | Between k_lower_layer k_upper_layer sigma_lower_layer sigma_upper_layer \<Rightarrow>
               ebind (u_at k_lower_layer host) (\<lambda>up1.
               ebind (v_at k_lower_layer host) (\<lambda>vp1.
               ebind (u_at k_upper_layer host) (\<lambda>up2.
               ebind (v_at k_upper_layer host) (\<lambda>vp2.
               vertical sigma_lower_layer sigma_upper_layer up1 vp1 up2 vp2)))))
        else
          \<comment> \<open>Non-boundary element - perform horizontal and temporal interpolation\<close>
          (case layers of
             Boundary k_boundary \<Rightarrow>
               ebind (get1 (fv_xc r) host) (\<lambda>xc0. ebind (get1 (fv_yc r) host) (\<lambda>yc0.
               ebind (u_at k_boundary host) (\<lambda>uc1_0.
               ebind (v_at k_boundary host) (\<lambda>vc1_0.
               ebind (read_neighbours r host) (\<lambda>(neighbour1, neighbour2, neighbour3).
               ebind (u_at k_boundary neighbour1) (\<lambda>uc1_1.
               ebind (v_at k_boundary neighbour1) (\<lambda>vc1_1.
               ebind (u_at k_boundary neighbour2) (\<lambda>uc1_2.
               ebind (v_at k_boundary neighbour2) (\<lambda>vc1_2.
               ebind (u_at k_boundary neighbour3) (\<lambda>uc1_3.
               ebind (v_at k_boundary neighbour3) (\<lambda>vc1_3.
               ebind (interpolate_vel_between_elements r xpos' ypos' host
                        (uc1_0, uc1_1, uc1_2, uc1_3)) (\<lambda>vel0.
               ebind (interpolate_vel_between_elements r xpos' ypos' host
                        (vc1_0, vc1_1, vc1_2, vc1_3)) (\<lambda>vel1.
               Inr (vel0, vel1))))))))))))))
           | Between k_lower_layer k_upper_layer sigma_lower_layer sigma_upper_layer \<Rightarrow>
               ebind (get1 (fv_xc r) host) (\<lambda>xc0. ebind (get1 (fv_yc r) host) (\<lambda>yc0.
               ebind (u_at k_lower_layer host) (\<lambda>uc1_0.
               ebind (v_at k_lower_layer host) (\<lambda>vc1_0.
               ebind (u_at k_upper_layer host) (\<lambda>uc2_0.
               ebind (v_at k_upper_layer host) (\<lambda>vc2_0.
               ebind (read_neighbours r host) (\<lambda>(neighbour1, neighbour2, neighbour3).
               ebind (u_at k_lower_layer host) (\<lambda>uc1_j.
               ebind (v_at k_lower_layer host) (\<lambda>vc1_j.
               ebind (u_at k_upper_layer host) (\<lambda>uc2_j.
               ebind (v_at k_upper_layer host) (\<lambda>vc2_j.
               \<comment> \<open>... lower bounding sigma layer\<close>
               ebind (interpolate_vel_between_elements r xpos' ypos' host
                        (uc1_0, uc1_j, uc1_j, uc1_j)) (\<lambda>up1.
               ebind (interpolate_vel_between_elements r xpos' ypos' host
                        (vc1_0, vc1_j, vc1_j, vc1_j)) (\<lambda>vp1.
               \<comment> \<open>... upper bounding sigma layer\<close>
               ebind (interpolate_vel_between_elements r xpos' ypos' host
                        (uc2_0, uc2_j, uc2_j, uc2_j)) (\<lambda>up2.
               ebind (interpolate_vel_between_elements r xpos' ypos' host
                        (vc2_0, vc2_j, vc2_j, vc2_j)) (\<lambda>vp2.
               vertical sigma_lower_layer sigma_upper_layer up1 vp1 up2 vp2)))))))))))))))))))))"

text \<open>
  The value that section 4.B gives for an element without a boundary edge and a depth
  between two layers, in the words of the spec: \<open>u_c + (\<Sum> u[j] a1u[j,e]) (x - x_c) +
  (\<Sum> u[j] a2u[j,e]) (y - y_c)\<close>, where \<open>u[0]\<close> is the value at the centre of the host and
  \<open>u[1..3]\<close> the values at the centres of the three neighbours \<open>nbe[0..2, e]\<close>, each
  interpolated in time and then between the two layers.
\<close>

definition lls_value_spec ::
  "'m fvcom_reader \<Rightarrow> real list list \<Rightarrow> real list list \<Rightarrow> real \<Rightarrow> real \<Rightarrow> real \<Rightarrow> real \<Rightarrow> int
     \<Rightarrow> int \<Rightarrow> int \<Rightarrow> real \<Rightarrow> real \<Rightarrow> error + real" where
  "lls_value_spec r var_last var_next time xpos' ypos' zpos' e
       k_lower_layer k_upper_layer sigma_lower_layer sigma_upper_layer =
     (let time_fraction = get_linear_fraction time (fv_time_last r) (fv_time_next r);
          sigma_fraction = get_linear_fraction zpos' sigma_lower_layer sigma_upper_layer;
          at_centre = (\<lambda>elem.
            ebind (centre_value time_fraction var_last var_next k_lower_layer elem) (\<lambda>lower.
            ebind (centre_value time_fraction var_last var_next k_upper_layer elem) (\<lambda>upper.
            Inr (linear_interp sigma_fraction lower upper))))
      in ebind (read_neighbours r e) (\<lambda>(neighbour1, neighbour2, neighbour3).
         ebind (at_centre e) (\<lambda>u0.
         ebind (at_centre neighbour1) (\<lambda>u1.
         ebind (at_centre neighbour2) (\<lambda>u2.
         ebind (at_centre neighbour3) (\<lambda>u3.
         interpolate_vel_between_elements r xpos' ypos' e (u0, u1, u2, u3)))))))"

text \<open>
  A grid of four elements: element 0 with the corners \<open>(0,0)\<close>, \<open>(3,0)\<close>, \<open>(0,3)\<close> and
  its three neighbours, each with two land edges. Two sigma layers at \<open>-1/4\<close> and
  \<open>-3/4\<close>. The steady velocity field \<open>u = x\<close>, \<open>v = y\<close> at the element centres; the
  coefficients \<open>a1u\<close> and \<open>a2u\<close> of element 0 are the least squares weights for its
  three neighbours (they are zero in the boundary elements).
\<close>

definition StarGrid :: "unit fvcom_reader" where
  "StarGrid =
     \<lparr> fv_mediator = (),
       fv_n_elems = 4, fv_n_nodes = 6, fv_n_siglay = 2, fv_n_siglev = 3,
       fv_nv = [[0, 1, 0, 0], [1, 3, 2, 5], [2, 2, 4, 1]],
       fv_nbe = [[1, -1, -1, -1], [2, 0, -1, 0], [3, -1, 0, -1]],
       fv_x = [0, 3, 0, 3, -3, 0],
       fv_y = [0, 0, 3, 3, 0, -3],
       fv_xc = [1, 2, -1, 1],
       fv_yc = [1, 2, 1, -1],
       fv_a1u = [[1/6, 0, 0, 0], [1/6, 0, 0, 0], [-5/12, 0, 0, 0], [1/12, 0, 0, 0]],
       fv_a2u = [[1/6, 0, 0, 0], [1/6, 0, 0, 0], [1/12, 0, 0, 0], [-5/12, 0, 0, 0]],
       fv_siglev = [[0, 0, 0, 0, 0, 0], [-1/2, -1/2, -1/2, -1/2, -1/2, -1/2],
                    [-1, -1, -1, -1, -1, -1]],
       fv_siglay = [[-1/4, -1/4, -1/4, -1/4, -1/4, -1/4],
                    [-3/4, -3/4, -3/4, -3/4, -3/4, -3/4]],
       fv_h = [10, 10, 10, 10, 10, 10],
       fv_zeta_last = [0, 0, 0, 0, 0, 0],
       fv_zeta_next = [0, 0, 0, 0, 0, 0],
       fv_u_last = [[1, 2, -1, 1], [1, 2, -1, 1]],
       fv_u_next = [[1, 2, -1, 1], [1, 2, -1, 1]],
       fv_v_last = [[1, 2, 1, -1], [1, 2, 1, -1]],
       fv_v_next = [[1, 2, 1, -1], [1, 2, 1, -1]],
       fv_omega_last = [[0, 0, 0, 0, 0, 0], [0, 0, 0, 0, 0, 0], [0, 0, 0, 0, 0, 0]],
       fv_omega_next = [[0, 0, 0, 0, 0, 0], [0, 0, 0, 0, 0, 0], [0, 0, 0, 0, 0, 0]],
       fv_kh_last = [[0, 0, 0, 0, 0, 0], [0, 0, 0, 0, 0, 0], [0, 0, 0, 0, 0, 0]],
       fv_kh_next = [[0, 0, 0, 0, 0, 0], [0, 0, 0, 0, 0, 0], [0, 0, 0, 0, 0, 0]],
       fv_viscofh_last = [[0, 0, 0, 0, 0, 0], [0, 0, 0, 0, 0, 0]],
       fv_viscofh_next = [[0, 0, 0, 0, 0, 0], [0, 0, 0, 0, 0, 0]],
       fv_time_last = 0,
       fv_time_next = 3600 \<rparr>"


subsection \<open>The GOTM data reader (\<^verbatim>\<open>GOTMDataReader\<close>)\<close>

text \<open>
  A write to a typed memory view, in place: the same index rules as for a read.
\<close>

definition set1 :: "'a list \<Rightarrow> int \<Rightarrow> 'a \<Rightarrow> error + 'a list" where
  "set1 xs i v =
     (if 0 \<le> i \<and> i < int (length xs) then Inr (xs[nat i := v])
      else if - int (length xs) \<le> i \<and> i < 0 then Inr (xs[nat (int (length xs) + i) := v])
      else Inl IndexError)"

text \<open>
  The attributes of \<^verbatim>\<open>GOTMDataReader\<close>. The arrays are allocated once, with
  \<^verbatim>\<open>_n_zlev\<close> entries, and written in place afterwards.
\<close>

record 'm gotm_reader =
  gt_mediator :: 'm
  gt_n_zlay :: int
  gt_n_zlev :: int
  gt_time_last :: real
  gt_time_next :: real
  gt_time_fraction :: real
  gt_H :: real
  gt_zeta_last :: real
  gt_zeta_next :: real
  gt_zeta :: real
  gt_zlev_last :: "real list"
  gt_zlev_next :: "real list"
  gt_zlev :: "real list"
  gt_kh_last :: "real list"
  gt_kh_next :: "real list"
  gt_kh :: "real list"

text \<open>
  \<^verbatim>\<open>_read_time_dependent_vars\<close>. The loops
  \<^verbatim>\<open>for i in xrange(self._n_zlay): self._zlev_last[i] = z[i] - h[i]/2.0\<close> and
  \<^verbatim>\<open>self._kh_last[i+1] = kh_last[i]\<close> run over the layers; after the first loop the
  source reads \<^verbatim>\<open>z[i]\<close> and \<^verbatim>\<open>h[i]\<close> at the last value of \<^verbatim>\<open>i\<close>, which is
  \<open>n_zlay - 1\<close> for a column with at least one layer.
\<close>

fun fill_zlev :: "real list \<Rightarrow> real list \<Rightarrow> real list \<Rightarrow> int list \<Rightarrow> error + real list" where
  "fill_zlev z' h' zlev [] = Inr zlev"
| "fill_zlev z' h' zlev (i # is) =
     ebind (get1 z' i) (\<lambda>z_i. ebind (get1 h' i) (\<lambda>h_i.
     ebind (set1 zlev i (z_i - h_i / 2.0)) (\<lambda>zlev'. fill_zlev z' h' zlev' is)))"

fun fill_kh :: "real list \<Rightarrow> real list \<Rightarrow> int list \<Rightarrow> error + real list" where
  "fill_kh nuh kh [] = Inr kh"
| "fill_kh nuh kh (i # is) =
     ebind (get1 nuh i) (\<lambda>nuh_i.
     ebind (set1 kh (i + 1) nuh_i) (\<lambda>kh'. fill_kh nuh kh' is))"

definition gotm_read_time_dependent_vars ::
  "'m mediator \<Rightarrow> 'm gotm_reader \<Rightarrow> error + 'm gotm_reader" where
  "gotm_read_time_dependent_vars Med r =
     (let m = gt_mediator r;
          layers = [0..gt_n_zlay r - 1];
          i_last = gt_n_zlay r - 1
      in ebind (get1 (get_var1_at_last_time_index Med ''zeta'' m) 0) (\<lambda>zeta_last.
         ebind (get1 (get_var1_at_next_time_index Med ''zeta'' m) 0) (\<lambda>zeta_next.
         let h' = get_var1_at_last_time_index Med ''h'' m;
             z' = get_var1_at_last_time_index Med ''z'' m
         in ebind (fill_zlev z' h' (gt_zlev_last r) layers) (\<lambda>zlev_last.
            ebind (get1 z' i_last) (\<lambda>z_i. ebind (get1 h' i_last) (\<lambda>h_i.
            ebind (set1 zlev_last (-1) (z_i + h_i / 2.0)) (\<lambda>zlev_last.
         let h' = get_var1_at_next_time_index Med ''h'' m;
             z' = get_var1_at_next_time_index Med ''z'' m
         in ebind (fill_zlev z' h' (gt_zlev_next r) layers) (\<lambda>zlev_next.
            ebind (get1 z' (-1)) (\<lambda>z_i. ebind (get1 h' (-1)) (\<lambda>h_i.
            ebind (set1 zlev_next (-1) (z_i + h_i / 2.0)) (\<lambda>zlev_next.
         let kh_last = get_var1_at_last_time_index Med ''nuh'' m;
             kh_next = get_var1_at_next_time_index Med ''nuh'' m
         in ebind (fill_kh kh_last (gt_kh_last r) layers) (\<lambda>kh_last'.
            ebind (fill_kh kh_next (gt_kh_next r) layers) (\<lambda>kh_next'.
            ebind (set1 kh_last' 0 0.0) (\<lambda>kh_last'.
            ebind (set1 kh_next' 0 0.0) (\<lambda>kh_next'.
            Inr (r\<lparr>gt_time_last := get_time_at_last_time_index Med m,
                    gt_time_next := get_time_at_next_time_index Med m,
                    gt_zeta_last := zeta_last, gt_zeta_next := zeta_next,
                    gt_zlev_last := zlev_last, gt_zlev_next := zlev_next,
                    gt_kh_last := kh_last', gt_kh_next := kh_next'\<rparr>))))))))))))))))"

text \<open>
  \<^verbatim>\<open>_interpolate_in_time\<close>: the time fraction, the depth, the elevation and, level by
  level, the interpolated level depths and diffusivities
  (\<^verbatim>\<open>self._zlev[i] = interp.linear_interp(...)\<close>, written in place).
\<close>

fun interp_levels ::
  "real \<Rightarrow> real list \<Rightarrow> real list \<Rightarrow> real list \<Rightarrow> int list \<Rightarrow> error + real list" where
  "interp_levels time_fraction var_last var_next var [] = Inr var"
| "interp_levels time_fraction var_last var_next var (i # is) =
     ebind (get1 var_last i) (\<lambda>val_last. ebind (get1 var_next i) (\<lambda>val_next.
     ebind (set1 var i (linear_interp time_fraction val_last val_next)) (\<lambda>var'.
     interp_levels time_fraction var_last var_next var' is)))"

definition gotm_interpolate_in_time :: "real \<Rightarrow> 'm gotm_reader \<Rightarrow> error + 'm gotm_reader" where
  "gotm_interpolate_in_time time r =
     ebind (get_linear_fraction_safe time (gt_time_last r) (gt_time_next r)) (\<lambda>time_fraction.
     ebind (get1 (gt_zlev_last r) 0) (\<lambda>zlev_last0.
     ebind (get1 (gt_zlev_next r) 0) (\<lambda>zlev_next0.
     let H = - linear_interp time_fraction zlev_last0 zlev_next0;
         zeta = linear_interp time_fraction (gt_zeta_last r) (gt_zeta_next r);
         levels = [0..gt_n_zlev r - 1]
     in ebind (interp_levels time_fraction (gt_zlev_last r) (gt_zlev_next r) (gt_zlev r) levels)
          (\<lambda>zlev.
        ebind (interp_levels time_fraction (gt_kh_last r) (gt_kh_next r) (gt_kh r) levels)
          (\<lambda>kh.
        Inr (r\<lparr>gt_time_fraction := time_fraction, gt_H := H, gt_zeta := zeta,
                gt_zlev := zlev, gt_kh := kh\<rparr>))))))"

text \<open>\<^verbatim>\<open>GOTMDataReader.read_data\<close>.\<close>

definition gotm_read_data :: "'m mediator \<Rightarrow> real \<Rightarrow> 'm gotm_reader \<Rightarrow> error + 'm gotm_reader" where
  "gotm_read_data Med time r =
     (let time_fraction = get_linear_fraction time (gt_time_last r) (gt_time_next r)
      in ebind (if time_fraction < 0.0 \<or> time_fraction \<ge> 1.0 then
                  ebind (update_reading_frames Med time (gt_mediator r)) (\<lambda>m'.
                    gotm_read_time_dependent_vars Med (r\<lparr>gt_mediator := m'\<rparr>))
                else Inr r)
           (gotm_interpolate_in_time time))"

text \<open>
  A mediator whose reading frame stays at \<open>[0, 3600]\<close>, and a GOTM column of two
  layers over a depth of 10 in that frame.
\<close>

definition StillMediator :: "unit mediator" where
  "StillMediator =
     \<lparr> update_reading_frames = (\<lambda>time m. Inr m),
       get_time_at_last_time_index = (\<lambda>m. 0),
       get_time_at_next_time_index = (\<lambda>m. 3600),
       get_var1_at_last_time_index = (\<lambda>name m.
          if name = ''zeta'' then [0] else if name = ''h'' then [5, 5]
          else if name = ''z'' then [-15/2, -5/2] else [1/100, 1/100]),
       get_var1_at_next_time_index = (\<lambda>name m.
          if name = ''zeta'' then [1/5] else if name = ''h'' then [5, 5]
          else if name = ''z'' then [-15/2, -5/2] else [3/100, 1/100]),
       get_var2_at_last_time_index = (\<lambda>name m. [[0]]),
       get_var2_at_next_time_index = (\<lambda>name m. [[0]]) \<rparr>"

definition Column :: "unit gotm_reader" where
  "Column =
     \<lparr> gt_mediator = (), gt_n_zlay = 2, gt_n_zlev = 3,
       gt_time_last = 0, gt_time_next = 3600, gt_time_fraction = 0,
       gt_H = 10, gt_zeta_last = 0, gt_zeta_next = 1/5, gt_zeta = 0,
       gt_zlev_last = [-10, -5, 0], gt_zlev_next = [-10, -5, 0], gt_zlev = [-10, -5, 0],
       gt_kh_last = [0, 1/100, 1/100], gt_kh_next = [0, 3/100, 1/100],
       gt_kh = [0, 1/100, 1/100] \<rparr>"

subsection \<open>A concrete channel\<close>

text \<open>
  A reader in the manner of \<^verbatim>\<open>TestOPTModelDataReader\<close>: the domain is the unit square,
  one element (host 0), between \<open>zmin = 0\<close> and \<open>zmax = 1\<close>. The sides \<open>x = 0\<close> and
  \<open>x = 1\<close> are land, the sides \<open>y = 0\<close> and \<open>y = 1\<close> are open.
\<close>

definition ChannelReader :: model_reader where
  "ChannelReader =
     \<lparr> mr_find_host = (\<lambda>x_old y_old x_new y_new guess.
          Some (Inr (if x_new < 0 \<or> x_new > 1 then (-1, guess)
                     else if y_new < 0 \<or> y_new > 1 then (-2, guess)
                     else (0, 0)))),
       mr_find_host_using_local_search = (\<lambda>x y guess.
          Some (Inr (if x < 0 \<or> x > 1 \<or> y < 0 \<or> y > 1 then (-1, guess) else (0, 0)))),
       mr_find_host_using_global_search = (\<lambda>x y.
          Some (Inr (if x < 0 \<or> x > 1 \<or> y < 0 \<or> y > 1 then -1 else 0))),
       mr_get_zmin = (\<lambda>time x y host. Some (Inr 0)),
       mr_get_zmax = (\<lambda>time x y host. Some (Inr 1)),
       mr_find_zlayer = (\<lambda>time x y z host guess. Some (Inr 0)) \<rparr>"

text \<open>
  A model over the channel whose integrator adds the displacement \<open>(dx, dy, dz)\<close>,
  without random walks, with reflection at the two land sides (what
  \<^verbatim>\<open>RefHorizBoundaryConditionCalculator.apply\<close> computes for a side \<open>x = 0\<close> or
  \<open>x = 1\<close>) and at the bottom and the surface.
\<close>

definition ChannelModel :: "real \<Rightarrow> real \<Rightarrow> real \<Rightarrow> unit fvcom_model" where
  "ChannelModel dx dy dz =
     \<lparr> data_reader = ChannelReader,
       num_integrator = Some (\<lambda>time particle R delta_X.
          Some (Inr (0, delta_X\<lparr>delta_x := delta_x delta_X + dx,
                                delta_y := delta_y delta_X + dy,
                                delta_z := delta_z delta_X + dz\<rparr>))),
       vert_rand_walk_model = None,
       horiz_rand_walk_model = None,
       horiz_bc_calculator = (\<lambda>R x_old y_old x_new y_new last_host.
          Some (Inr (if x_new > 1 then 2 - x_new else if x_new < 0 then - x_new else x_new,
                     y_new))),
       vert_bc_calculator = (\<lambda>zpos' zmin zmax.
          Some (Inr (if zpos' < zmin then zmin + zmin - zpos' else zmax + zmax - zpos'))),
       time_step = 1,
       depth_coordinates = ''cartesian'',
       sigma_to_cartesian_coords = (\<lambda>sigma h zeta. zeta + sigma * (h + zeta)),
       default_particle =
         \<lparr>group_id = -999, xpos = -999, ypos = -999, zpos = -999,
          host_horizontal_elem = -999, host_z_layer = -999, in_domain = False\<rparr> \<rparr>"


definition ColumnModel :: "real \<Rightarrow> unit gotm_model" where
  "ColumnModel dz =
     \<lparr> gotm_data_reader = ChannelReader,
       gotm_vert_rand_walk_model = Some (\<lambda>g time particle R delta_X.
          Some (Inr (delta_X\<lparr>delta_z := delta_z delta_X + dz\<rparr>, g))) \<rparr>"

text \<open>The flag of a loop state, when there is one.\<close>

definition flag_of :: "(int \<times> int \<times> real \<times> real) res \<Rightarrow> int option" where
  "flag_of r = (case r of Some (Inr (flag, host, xpos', ypos')) \<Rightarrow> Some flag | _ \<Rightarrow> None)"

text \<open>
  What a run of the land boundary loop from state \<open>s\<close> with outcome \<open>y\<close> looks like:
  for some \<open>n\<close> the flag is \<open>-1\<close> before each of the first \<open>n\<close> passes, \<open>y\<close> is
  the outcome of \<open>n\<close> passes, and \<open>y\<close> is an exception or a state whose flag is not
  \<open>-1\<close>.
\<close>

definition loop_trace ::
  "'g fvcom_model \<Rightarrow> particle \<Rightarrow> int \<times> int \<times> real \<times> real \<Rightarrow> error + int \<times> int \<times> real \<times> real \<Rightarrow> bool" where
  "loop_trace M p s y \<longleftrightarrow>
     (\<exists>n. (\<forall>k<n. flag_of (land_boundary_passes k M p s) = Some (-1)) \<and>
          land_boundary_passes n M p s = Some y \<and>
          (\<forall>flag host x' y'. y = Inr (flag, host, x', y') \<longrightarrow> flag \<noteq> -1))"

declare land_boundary_loop.simps [code]

section \<open>Theorems\<close>

lemma rbind_simps:
  "rbind None f = None"
  "rbind (Some (Inl e)) f = Some (Inl e)"
  "rbind (Some (Inr v)) f = f v"
  by (simp_all add: rbind_def)

text \<open>
  C8. When every host lookup succeeds, RK4 advection over a step of length \<open>h\<close> from
  position \<open>p\<close> produces the new position \<open>p + (k1 + 2 k2 + 2 k3 + k4) / 6\<close>, where
  \<open>k1 = h vel(t, p)\<close>, \<open>k2 = h vel(t + h/2, p + k1/2)\<close>, \<open>k3 = h vel(t + h/2, p + k2/2)\<close>
  and \<open>k4 = h vel(t + h, p + k3)\<close>. The velocity at a stage is the one the reader
  returns for the stage time, the stage position and the host found for it.
\<close>

theorem C8_rk4_new_position:
  assumes "dr_get_velocity dr t (xpos p) (ypos p) (zpos p) (host_horizontal_elem p)
             = Some (Inr (u1, v1, w1))"
    and "dr_find_host dr (xpos p + (h * u1) / 2) (ypos p + (h * v1) / 2)
             (host_horizontal_elem p) = Some (Inr h2)"
    and "h2 \<noteq> -1"
    and "dr_get_velocity dr (t + h / 2) (xpos p + (h * u1) / 2) (ypos p + (h * v1) / 2)
             (zpos p + (h * w1) / 2) h2 = Some (Inr (u2, v2, w2))"
    and "dr_find_host dr (xpos p + (h * u2) / 2) (ypos p + (h * v2) / 2) h2 = Some (Inr h3)"
    and "h3 \<noteq> -1"
    and "dr_get_velocity dr (t + h / 2) (xpos p + (h * u2) / 2) (ypos p + (h * v2) / 2)
             (zpos p + (h * w2) / 2) h3 = Some (Inr (u3, v3, w3))"
    and "dr_find_host dr (xpos p + h * u3) (ypos p + h * v3) h3 = Some (Inr h4)"
    and "h4 \<noteq> -1"
    and "dr_get_velocity dr (t + h) (xpos p + h * u3) (ypos p + h * v3)
             (zpos p + h * w3) h4 = Some (Inr (u4, v4, w4))"
    and "dr_find_host dr (xpos p + (h * u1 + 2 * (h * u2) + 2 * (h * u3) + h * u4) / 6)
             (ypos p + (h * v1 + 2 * (h * v2) + 2 * (h * v3) + h * v4) / 6) h4 = Some (Inr h5)"
    and "h5 \<noteq> -1"
  shows "advect dr h t p =
           Some (Inr (p\<lparr>xpos := xpos p + (h * u1 + 2 * (h * u2) + 2 * (h * u3) + h * u4) / 6,
                        ypos := ypos p + (h * v1 + 2 * (h * v2) + 2 * (h * v3) + h * v4) / 6,
                        zpos := zpos p + (h * w1 + 2 * (h * w2) + 2 * (h * w3) + h * w4) / 6,
                        host_horizontal_elem := h5\<rparr>))"
  using assms by (simp add: advect_def Let_def rbind_simps)

theorem C8_rk4_new_position_witness:
  "dr_get_velocity AnalyticDataReader 0 1 1 0 0 = Some (Inr (1, 3/2, 0)) \<and>
   dr_find_host AnalyticDataReader (3/2) (7/4) 0 = Some (Inr 0) \<and>
   dr_find_host AnalyticDataReader (65/24) (563/128) 0 = Some (Inr 0) \<and>
   advect AnalyticDataReader 1 0
       \<lparr>group_id = 0, xpos = 1, ypos = 1, zpos = 0, host_horizontal_elem = 0,
        host_z_layer = 0, in_domain = True\<rparr>
     = Some (Inr \<lparr>group_id = 0, xpos = 65/24, ypos = 563/128, zpos = 0,
                    host_horizontal_elem = 0, host_z_layer = 0, in_domain = True\<rparr>)"
  using C8_rk4_new_position [where dr = AnalyticDataReader and t = 0 and h = 1
      and p = "\<lparr>group_id = 0, xpos = 1, ypos = 1, zpos = 0, host_horizontal_elem = 0,
                 host_z_layer = 0, in_domain = True\<rparr>"
      and ?u1.0 = 1 and ?v1.0 = "3/2" and ?w1.0 = 0 and ?h2.0 = 0
      and ?u2.0 = "3/2" and ?v2.0 = "21/8" and ?w2.0 = 0 and ?h3.0 = 0
      and ?u3.0 = "7/4" and ?v3.0 = "111/32" and ?w3.0 = 0 and ?h4.0 = 0
      and ?u4.0 = "11/4" and ?v4.0 = "429/64" and ?w4.0 = 0 and ?h5.0 = 0]
  by (simp add: AnalyticDataReader_def)

text \<open>
  C4. If during RK4 advection a re-location (\<^verbatim>\<open>find_host\<close> at stage 2, 3, 4 or at
  the final summed position) reports that the particle has left the domain (host
  \<open>-1\<close>), then \<open>advect\<close> returns with the particle's position and host element
  exactly as they were on entry.
\<close>

theorem C4_rk4_early_exit_unchanged:
  assumes s1: "dr_get_velocity dr t (xpos p) (ypos p) (zpos p) (host_horizontal_elem p)
             = Some (Inr (u1, v1, w1))"
  shows "(dr_find_host dr (xpos p + (h * u1) / 2) (ypos p + (h * v1) / 2)
             (host_horizontal_elem p) = Some (Inr (-1))
          \<longrightarrow> advect dr h t p = Some (Inr p))
       \<and> (dr_find_host dr (xpos p + (h * u1) / 2) (ypos p + (h * v1) / 2)
             (host_horizontal_elem p) = Some (Inr h2) \<and> h2 \<noteq> -1 \<and>
          dr_get_velocity dr (t + h / 2) (xpos p + (h * u1) / 2) (ypos p + (h * v1) / 2)
             (zpos p + (h * w1) / 2) h2 = Some (Inr (u2, v2, w2)) \<and>
          dr_find_host dr (xpos p + (h * u2) / 2) (ypos p + (h * v2) / 2) h2 = Some (Inr (-1))
          \<longrightarrow> advect dr h t p = Some (Inr p))
       \<and> (dr_find_host dr (xpos p + (h * u1) / 2) (ypos p + (h * v1) / 2)
             (host_horizontal_elem p) = Some (Inr h2) \<and> h2 \<noteq> -1 \<and>
          dr_get_velocity dr (t + h / 2) (xpos p + (h * u1) / 2) (ypos p + (h * v1) / 2)
             (zpos p + (h * w1) / 2) h2 = Some (Inr (u2, v2, w2)) \<and>
          dr_find_host dr (xpos p + (h * u2) / 2) (ypos p + (h * v2) / 2) h2 = Some (Inr h3) \<and>
          h3 \<noteq> -1 \<and>
          dr_get_velocity dr (t + h / 2) (xpos p + (h * u2) / 2) (ypos p + (h * v2) / 2)
             (zpos p + (h * w2) / 2) h3 = Some (Inr (u3, v3, w3)) \<and>
          dr_find_host dr (xpos p + h * u3) (ypos p + h * v3) h3 = Some (Inr (-1))
          \<longrightarrow> advect dr h t p = Some (Inr p))
       \<and> (dr_find_host dr (xpos p + (h * u1) / 2) (ypos p + (h * v1) / 2)
             (host_horizontal_elem p) = Some (Inr h2) \<and> h2 \<noteq> -1 \<and>
          dr_get_velocity dr (t + h / 2) (xpos p + (h * u1) / 2) (ypos p + (h * v1) / 2)
             (zpos p + (h * w1) / 2) h2 = Some (Inr (u2, v2, w2)) \<and>
          dr_find_host dr (xpos p + (h * u2) / 2) (ypos p + (h * v2) / 2) h2 = Some (Inr h3) \<and>
          h3 \<noteq> -1 \<and>
          dr_get_velocity dr (t + h / 2) (xpos p + (h * u2) / 2) (ypos p + (h * v2) / 2)
             (zpos p + (h * w2) / 2) h3 = Some (Inr (u3, v3, w3)) \<and>
          dr_find_host dr (xpos p + h * u3) (ypos p + h * v3) h3 = Some (Inr h4) \<and>
          h4 \<noteq> -1 \<and>
          dr_get_velocity dr (t + h) (xpos p + h * u3) (ypos p + h * v3)
             (zpos p + h * w3) h4 = Some (Inr (u4, v4, w4)) \<and>
          dr_find_host dr (xpos p + (h * u1 + 2 * (h * u2) + 2 * (h * u3) + h * u4) / 6)
             (ypos p + (h * v1 + 2 * (h * v2) + 2 * (h * v3) + h * v4) / 6) h4
             = Some (Inr (-1))
          \<longrightarrow> advect dr h t p = Some (Inr p))"
  using s1 by (simp add: advect_def Let_def rbind_simps)

theorem C4_rk4_early_exit_unchanged_witness:
  "(dr_find_host StripDataReader (6/5) 0 0 = Some (Inr (-1)) \<and>
    advect StripDataReader 1 0 (mock_particle (4/5) 0 0) = Some (Inr (mock_particle (4/5) 0 0)))
   \<and> (dr_find_host StripDataReader (21/20) 0 0 = Some (Inr (-1)) \<and>
    advect StripDataReader 1 0 (mock_particle (3/5) 0 0) = Some (Inr (mock_particle (3/5) 0 0)))
   \<and> (dr_find_host StripDataReader (11/8) 0 0 = Some (Inr (-1)) \<and>
    advect StripDataReader 1 0 (mock_particle (1/2) 0 0) = Some (Inr (mock_particle (1/2) 0 0)))
   \<and> (dr_find_host StripDataReader (91/96) 0 0 = Some (Inr (-1)) \<and>
    advect StripDataReader 1 0 (mock_particle (7/20) 0 0) = Some (Inr (mock_particle (7/20) 0 0)))"
proof -
  have a: "advect StripDataReader 1 0 (mock_particle (4/5) 0 0)
             = Some (Inr (mock_particle (4/5) 0 0))"
    using C4_rk4_early_exit_unchanged [where dr = StripDataReader and t = 0 and h = 1
        and p = "mock_particle (4/5) 0 0" and ?u1.0 = "4/5" and ?v1.0 = 0 and ?w1.0 = 0,
        THEN conjunct1]
    by (simp add: StripDataReader_def mock_particle_def)
  have b: "advect StripDataReader 1 0 (mock_particle (3/5) 0 0)
             = Some (Inr (mock_particle (3/5) 0 0))"
    using C4_rk4_early_exit_unchanged [where dr = StripDataReader and t = 0 and h = 1
        and p = "mock_particle (3/5) 0 0" and ?u1.0 = "3/5" and ?v1.0 = 0 and ?w1.0 = 0
        and ?h2.0 = 0 and ?u2.0 = "9/10" and ?v2.0 = 0 and ?w2.0 = 0,
        THEN conjunct2, THEN conjunct1]
    by (simp add: StripDataReader_def mock_particle_def)
  have c: "advect StripDataReader 1 0 (mock_particle (1/2) 0 0)
             = Some (Inr (mock_particle (1/2) 0 0))"
    using C4_rk4_early_exit_unchanged [where dr = StripDataReader and t = 0 and h = 1
        and p = "mock_particle (1/2) 0 0" and ?u1.0 = "1/2" and ?v1.0 = 0 and ?w1.0 = 0
        and ?h2.0 = 0 and ?u2.0 = "3/4" and ?v2.0 = 0 and ?w2.0 = 0
        and ?h3.0 = 0 and ?u3.0 = "7/8" and ?v3.0 = 0 and ?w3.0 = 0,
        THEN conjunct2, THEN conjunct2, THEN conjunct1]
    by (simp add: StripDataReader_def mock_particle_def)
  have d: "advect StripDataReader 1 0 (mock_particle (7/20) 0 0)
             = Some (Inr (mock_particle (7/20) 0 0))"
    using C4_rk4_early_exit_unchanged [where dr = StripDataReader and t = 0 and h = 1
        and p = "mock_particle (7/20) 0 0" and ?u1.0 = "7/20" and ?v1.0 = 0 and ?w1.0 = 0
        and ?h2.0 = 0 and ?u2.0 = "21/40" and ?v2.0 = 0 and ?w2.0 = 0
        and ?h3.0 = 0 and ?u3.0 = "49/80" and ?v3.0 = 0 and ?w3.0 = 0
        and ?h4.0 = 0 and ?u4.0 = "77/80" and ?v4.0 = 0 and ?w4.0 = 0,
        THEN conjunct2, THEN conjunct2, THEN conjunct2]
    by (simp add: StripDataReader_def mock_particle_def)
  show ?thesis
    using a b c d by (simp add: StripDataReader_def)
qed

subsection \<open>The vertical boundary of the GOTM model\<close>

lemma gotm_reflect_Inr_iff:
  assumes "zmin < zmax"
  shows "gotm_reflect z zmin zmax = Inr z' \<longleftrightarrow>
           2 * zmin - zmax \<le> z \<and> z \<le> 2 * zmax - zmin \<and>
           z' = (if z < zmin then 2 * zmin - z else if z > zmax then 2 * zmax - z else z)"
  using assms by (auto simp: gotm_reflect_def Let_def)




subsection \<open>The land boundary loop\<close>

lemma land_boundary_loop_exit:
  "flag \<noteq> -1 \<Longrightarrow>
     land_boundary_loop M p (flag, host, x, y) = Some (Inr (flag, host, x, y))"
  by (subst land_boundary_loop.simps) simp

lemma land_boundary_loop_again:
  "land_boundary_loop M p (-1, host, x, y) =
     rbind (land_boundary_pass M p (-1, host, x, y)) (land_boundary_loop M p)"
  by (subst land_boundary_loop.simps)
    (simp add: land_boundary_pass_def rbind_def split: option.splits sum.splits prod.splits)


lemma land_boundary_passes_Suc_Inr:
  assumes "land_boundary_pass M p s = Some (Inr s1)"
  shows "land_boundary_passes (Suc k) M p s = land_boundary_passes k M p s1"
  using assms by (simp add: rbind_simps)

lemma land_boundary_loop_passes:
  assumes "\<forall>k<n. flag_of (land_boundary_passes k M p s) = Some (-1)"
    and "land_boundary_passes n M p s = Some (Inr (flag, host, x, y))"
    and "flag \<noteq> -1"
  shows "land_boundary_loop M p s = Some (Inr (flag, host, x, y))"
  using assms
proof (induction n arbitrary: s)
  case 0
  then show ?case by (simp add: land_boundary_loop_exit)
next
  case (Suc n)
  from Suc.prems(1) have "flag_of (land_boundary_passes 0 M p s) = Some (-1)" by blast
  then obtain host0 x0 y0 where s: "s = (-1, host0, x0, y0)"
    by (cases s) (auto simp: flag_of_def)
  from Suc.prems(2) obtain s1 where s1: "land_boundary_pass M p s = Some (Inr s1)"
    and rest: "land_boundary_passes n M p s1 = Some (Inr (flag, host, x, y))"
    by (auto simp: rbind_def split: option.splits sum.splits)
  have "\<forall>k<n. flag_of (land_boundary_passes k M p s1) = Some (-1)"
  proof (intro allI impI)
    fix k assume "k < n"
    then have "flag_of (land_boundary_passes (Suc k) M p s) = Some (-1)"
      using Suc.prems(1) by auto
    then show "flag_of (land_boundary_passes k M p s1) = Some (-1)"
      using land_boundary_passes_Suc_Inr [OF s1] by simp
  qed
  from Suc.IH [OF this rest Suc.prems(3)]
  have "land_boundary_loop M p s1 = Some (Inr (flag, host, x, y))" .
  then show ?case
    using s s1 by (simp add: land_boundary_loop_again rbind_simps)
qed

lemma loop_trace_stop:
  "flag \<noteq> -1 \<Longrightarrow> loop_trace M p (flag, host, x, y) (Inr (flag, host, x, y))"
  unfolding loop_trace_def by (rule exI [of _ 0]) simp

lemma loop_trace_error:
  assumes "land_boundary_pass M p (-1, host, x, y) = Some (Inl e)"
  shows "loop_trace M p (-1, host, x, y) (Inl e)"
  unfolding loop_trace_def
  by (rule exI [of _ 1]) (simp add: assms rbind_simps flag_of_def)

lemma loop_trace_step:
  assumes pass: "land_boundary_pass M p (-1, host, x, y) = Some (Inr s1)"
    and rest: "loop_trace M p s1 r"
  shows "loop_trace M p (-1, host, x, y) r"
proof -
  from rest obtain n where
    flags: "\<forall>k<n. flag_of (land_boundary_passes k M p s1) = Some (-1)" and
    last: "land_boundary_passes n M p s1 = Some r" and
    stop: "\<forall>flag host x' y'. r = Inr (flag, host, x', y') \<longrightarrow> flag \<noteq> -1"
    unfolding loop_trace_def by blast
  have "\<forall>k<Suc n. flag_of (land_boundary_passes k M p (-1, host, x, y)) = Some (-1)"
  proof (intro allI impI)
    fix k assume "k < Suc n"
    show "flag_of (land_boundary_passes k M p (-1, host, x, y)) = Some (-1)"
    proof (cases k)
      case 0
      then show ?thesis by (simp add: flag_of_def)
    next
      case (Suc j)
      with \<open>k < Suc n\<close> flags show ?thesis
        by (simp add: pass rbind_simps)
    qed
  qed
  moreover have "land_boundary_passes (Suc n) M p (-1, host, x, y) = Some r"
    by (simp add: pass rbind_simps last)
  ultimately show ?thesis
    unfolding loop_trace_def using stop by blast
qed

lemma land_boundary_loop_returns_trace:
  assumes "land_boundary_loop M p s = Some r"
  shows "loop_trace M p s r"
proof (rule land_boundary_loop.raw_induct [where P = loop_trace, OF _ assms], goal_cases)
  case (1 loop' M p s r)
  obtain flag host x y where s: "s = (flag, host, x, y)" by (cases s)
  show ?case
  proof (cases "flag = -1")
    case False
    with 1(2) s show ?thesis by (auto intro: loop_trace_stop)
  next
    case True
    show ?thesis
    proof (cases "land_boundary_pass M p (-1, host, x, y)")
      case None
      with 1(2) s True show ?thesis
        by (auto simp: land_boundary_pass_def rbind_def split: option.splits sum.splits prod.splits)
    next
      case (Some a)
      show ?thesis
      proof (cases a)
        case (Inl e)
        with Some 1(2) s True have "r = Inl e"
          by (auto simp: land_boundary_pass_def rbind_def split: option.splits sum.splits prod.splits)
        with Some Inl s True show ?thesis by (simp add: loop_trace_error)
      next
        case (Inr s1)
        with Some 1(2) s True have "loop' M p s1 = Some r"
          by (auto simp: land_boundary_pass_def rbind_def split: option.splits sum.splits prod.splits)
        from 1(1) [OF this] Some Inr s True show ?thesis
          by (simp add: loop_trace_step)
      qed
    qed
  qed
qed

lemma commit_position_open: 
  "commit_position M t p z (-2, host, x, y) = Some (Inr (p\<lparr>in_domain := False\<rparr>))"
  by (simp add: commit_position_def)

lemma commit_position_keeps_in_domain:
  "flag \<noteq> -2 \<Longrightarrow> commit_position M t p z (flag, host, x, y) = Some (Inr p') \<Longrightarrow>
     in_domain p' = in_domain p"
  by (auto simp: commit_position_def rbind_def split: if_splits option.splits sum.splits)

subsection \<open>Particles out of the domain\<close>

lemma fvcom_update_particle_out_of_domain:
  "\<not> in_domain p \<Longrightarrow> fvcom_update_particle M t p g = Some (Inr (p, g))"
  by (simp add: fvcom_update_particle_def)

lemma gotm_update_particle_out_of_domain:
  "\<not> in_domain p \<Longrightarrow> gotm_update_particle N t p g = Some (Inr (p, g))"
  by (simp add: gotm_update_particle_def)

lemma fvcom_update_keeps_out_of_domain:
  "fvcom_update M t ps g = Some (ps', r) \<Longrightarrow>
     length ps' = length ps \<and> (\<forall>i < length ps. \<not> in_domain (ps ! i) \<longrightarrow> ps' ! i = ps ! i)"
proof (induction ps arbitrary: g ps' r)
  case Nil
  then show ?case by simp
next
  case (Cons p ps)
  show ?case
  proof (cases "fvcom_update_particle M t p g")
    case None
    with Cons.prems show ?thesis by simp
  next
    case (Some a)
    show ?thesis
    proof (cases a)
      case (Inl e)
      with Some Cons.prems show ?thesis by auto
    next
      case (Inr q)
      obtain p' g' where q: "q = (p', g')" by (cases q)
      with Some Inr Cons.prems obtain qs where
        rec: "fvcom_update M t ps g' = Some (qs, r)" and ps': "ps' = p' # qs"
        by (auto split: option.splits)
      have head: "\<not> in_domain p \<Longrightarrow> p' = p"
        using Some Inr q fvcom_update_particle_out_of_domain [of p M t g] by simp
      from Cons.IH [OF rec] ps' head show ?thesis
        by (auto simp: nth_Cons split: nat.splits)
    qed
  qed
qed

lemma gotm_update_keeps_out_of_domain:
  "gotm_update N t ps g = Some (ps', r) \<Longrightarrow>
     length ps' = length ps \<and> (\<forall>i < length ps. \<not> in_domain (ps ! i) \<longrightarrow> ps' ! i = ps ! i)"
proof (induction ps arbitrary: g ps' r)
  case Nil
  then show ?case by simp
next
  case (Cons p ps)
  show ?case
  proof (cases "gotm_update_particle N t p g")
    case None
    with Cons.prems show ?thesis by simp
  next
    case (Some a)
    show ?thesis
    proof (cases a)
      case (Inl e)
      with Some Cons.prems show ?thesis by auto
    next
      case (Inr q)
      obtain p' g' where q: "q = (p', g')" by (cases q)
      with Some Inr Cons.prems obtain qs where
        rec: "gotm_update N t ps g' = Some (qs, r)" and ps': "ps' = p' # qs"
        by (auto split: option.splits)
      have head: "\<not> in_domain p \<Longrightarrow> p' = p"
        using Some Inr q gotm_update_particle_out_of_domain [of p N t g] by simp
      from Cons.IH [OF rec] ps' head show ?thesis
        by (auto simp: nth_Cons split: nat.splits)
    qed
  qed
qed

text \<open>
  C9. Once a particle's \<open>in_domain\<close> flag is false, every call to \<open>update\<close>, of the
  FVCOM model and of the GOTM model, leaves all of that particle's fields unchanged
  (\<open>in_domain\<close> included, so this holds for every later call as well): the body of
  the loop returns at once for such a particle, and whenever \<open>update\<close> returns,
  normally or with an exception, the particle is as it was.
\<close>

theorem C9_out_of_domain_is_terminal:
  "(\<not> in_domain p \<longrightarrow>
      fvcom_update_particle M t p g = Some (Inr (p, g)) \<and>
      gotm_update_particle N t p g = Some (Inr (p, g)))
   \<and> (fvcom_update M t ps g = Some (ps', r) \<and> i < length ps \<and> \<not> in_domain (ps ! i) \<longrightarrow>
        length ps' = length ps \<and> ps' ! i = ps ! i)
   \<and> (gotm_update N t ps g = Some (ps', r) \<and> i < length ps \<and> \<not> in_domain (ps ! i) \<longrightarrow>
        length ps' = length ps \<and> ps' ! i = ps ! i)"
  using fvcom_update_particle_out_of_domain [of p M t g]
    gotm_update_particle_out_of_domain [of p N t g]
    fvcom_update_keeps_out_of_domain [of M t ps g ps' r]
    gotm_update_keeps_out_of_domain [of N t ps g ps' r]
  by blast


theorem C9_out_of_domain_is_terminal_witness:
  "\<not> in_domain ((mock_particle (1/2) (1/2) (1/2))\<lparr>in_domain := False\<rparr>)
   \<and> fvcom_update (ChannelModel (1/4) 0 0) 0
        [(mock_particle (1/2) (1/2) (1/2))\<lparr>in_domain := False\<rparr>,
         mock_particle (1/2) (1/2) (1/2)] ()
      = Some ([(mock_particle (1/2) (1/2) (1/2))\<lparr>in_domain := False\<rparr>,
               mock_particle (3/4) (1/2) (1/2)], Inr ())
   \<and> gotm_update (ColumnModel (1/4)) 0
        [(mock_particle (1/2) (1/2) (1/2))\<lparr>in_domain := False\<rparr>,
         mock_particle (1/2) (1/2) (1/2)] ()
      = Some ([(mock_particle (1/2) (1/2) (1/2))\<lparr>in_domain := False\<rparr>,
               mock_particle (1/2) (1/2) (3/4)], Inr ())"
proof -
  let ?out = "(mock_particle (1/2) (1/2) (1/2))\<lparr>in_domain := False\<rparr>"
  let ?p = "mock_particle (1/2) (1/2) (1/2)"
  have f: "fvcom_update (ChannelModel (1/4) 0 0) 0 [?out, ?p] ()
             = Some ([?out, mock_particle (3/4) (1/2) (1/2)], Inr ())"
    by (simp add: fvcom_update_particle_def sum_contributions_def locate_new_position_def
        commit_position_def land_boundary_loop_exit ChannelModel_def ChannelReader_def
        reset_def mock_particle_def rbind_simps)
  have g: "gotm_update (ColumnModel (1/4)) 0 [?out, ?p] ()
             = Some ([?out, mock_particle (1/2) (1/2) (3/4)], Inr ())"
    by (simp add: gotm_update_particle_def gotm_reflect_def ColumnModel_def ChannelReader_def
        reset_def mock_particle_def rbind_simps)
  have o: "\<not> in_domain ?out" by simp
  from C9_out_of_domain_is_terminal [where p = ?out and M = "ChannelModel (1/4) 0 0"
      and N = "ColumnModel (1/4)" and t = 0 and g = "()" and ps = "[?out, ?p]" and i = 0
      and ps' = "[?out, mock_particle (3/4) (1/2) (1/2)]" and r = "Inr ()"]
  have "fvcom_update_particle (ChannelModel (1/4) 0 0) 0 ?out () = Some (Inr (?out, ()))"
    using o by blast
  with f g o show ?thesis by simp
qed

text \<open>
  C3 (as amended). In the per-step boundary loop of \<open>update\<close>, the sequence ``apply the
  horizontal boundary condition, then re-query \<^verbatim>\<open>find_host\<close>'' is executed once for
  every land crossing flag in a row, without an upper bound on the number of
  executions: the loop ends in a state exactly when, for some \<open>n\<close>, the flag is
  \<open>-1\<close> before each of the first \<open>n\<close> passes and different after the \<open>n\<close>-th, and
  it has then made these \<open>n\<close> passes (so it does not end while the flag stays
  \<open>-1\<close>). The particle is marked out of the domain only when that last flag is
  \<open>-2\<close>.
\<close>

theorem C3_land_boundary_loop_unbounded:
  "(land_boundary_loop M p s = Some (Inr (flag, host, x, y)) \<longleftrightarrow>
      (\<exists>n. (\<forall>k<n. flag_of (land_boundary_passes k M p s) = Some (-1)) \<and>
           land_boundary_passes n M p s = Some (Inr (flag, host, x, y)) \<and> flag \<noteq> -1))
   \<and> (flag = -2 \<longrightarrow>
         commit_position M t p z (flag, host, x, y) = Some (Inr (p\<lparr>in_domain := False\<rparr>)))
   \<and> (flag \<noteq> -2 \<longrightarrow> (\<forall>p'. commit_position M t p z (flag, host, x, y) = Some (Inr p')
         \<longrightarrow> in_domain p' = in_domain p))"
proof -
  have "\<exists>n. (\<forall>k<n. flag_of (land_boundary_passes k M p s) = Some (-1)) \<and>
           land_boundary_passes n M p s = Some (Inr (flag, host, x, y)) \<and> flag \<noteq> -1"
    if "land_boundary_loop M p s = Some (Inr (flag, host, x, y))"
    using land_boundary_loop_returns_trace [OF that] unfolding loop_trace_def by blast
  moreover have "land_boundary_loop M p s = Some (Inr (flag, host, x, y))"
    if "\<exists>n. (\<forall>k<n. flag_of (land_boundary_passes k M p s) = Some (-1)) \<and>
           land_boundary_passes n M p s = Some (Inr (flag, host, x, y)) \<and> flag \<noteq> -1"
    using that land_boundary_loop_passes [of _ M p s flag host x y] by blast
  ultimately show ?thesis
    using commit_position_open [of M t p z host x y]
      commit_position_keeps_in_domain [of flag M t p z host x y]
    by blast
qed

theorem C3_land_boundary_loop_unbounded_witness:
  "land_boundary_passes 11 (ChannelModel (45/4) 0 0) (mock_particle (1/2) (1/2) (1/2))
       (-1, 0, 47/4, 1/2) = Some (Inr (0, 0, 1/4, 1/2))
   \<and> land_boundary_loop (ChannelModel (45/4) 0 0) (mock_particle (1/2) (1/2) (1/2))
       (-1, 0, 47/4, 1/2) = Some (Inr (0, 0, 1/4, 1/2))"
proof -
  let ?M = "ChannelModel (45/4) 0 0"
  let ?p = "mock_particle (1/2) (1/2) (1/2)"
  have flags: "\<forall>k<11. flag_of (land_boundary_passes k ?M ?p (-1, 0, 47/4, 1/2)) = Some (-1)"
    by (simp add: numeral_eq_Suc less_Suc_eq flag_of_def rbind_simps land_boundary_pass_def
        ChannelModel_def ChannelReader_def mock_particle_def)
  have last: "land_boundary_passes 11 ?M ?p (-1, 0, 47/4, 1/2) = Some (Inr (0, 0, 1/4, 1/2))"
    by (simp add: numeral_eq_Suc rbind_simps land_boundary_pass_def
        ChannelModel_def ChannelReader_def mock_particle_def)
  from C3_land_boundary_loop_unbounded [where M = ?M and p = ?p and s = "(-1, 0, 47/4, 1/2)"
      and flag = 0 and host = 0 and x = "1/4" and y = "1/2", THEN conjunct1] flags last
  have "land_boundary_loop ?M ?p (-1, 0, 47/4, 1/2) = Some (Inr (0, 0, 1/4, 1/2))"
    by (simp only: zero_neq_neg_one simp_thms) blast
  with last show ?thesis by blast
qed

text \<open>
  The claim as stated fails: there is no bound of 10. In the channel, a particle at
  \<open>x = 1/2\<close> displaced by \<open>45/4\<close> is reflected between the two land sides; the flag
  is \<open>-1\<close> before each of the first 11 passes, the loop ends after the 11th with flag
  \<open>0\<close>, and \<open>update\<close> commits the position \<open>x = 1/4\<close> with the particle still in the
  domain.
\<close>

theorem C3_counterexample:
  "map (\<lambda>k. flag_of (land_boundary_passes k (ChannelModel (45/4) 0 0)
          (mock_particle (1/2) (1/2) (1/2)) (-1, 0, 47/4, 1/2))) [0..<11]
     = replicate 11 (Some (-1))
   \<and> land_boundary_loop (ChannelModel (45/4) 0 0) (mock_particle (1/2) (1/2) (1/2))
       (-1, 0, 47/4, 1/2) = Some (Inr (0, 0, 1/4, 1/2))
   \<and> fvcom_update_particle (ChannelModel (45/4) 0 0) 0 (mock_particle (1/2) (1/2) (1/2)) ()
       = Some (Inr (mock_particle (1/4) (1/2) (1/2), ()))
   \<and> in_domain (mock_particle (1/4) (1/2) (1/2))"
proof -
  let ?M = "ChannelModel (45/4) 0 0"
  let ?p = "mock_particle (1/2) (1/2) (1/2)"
  have "map (\<lambda>k. flag_of (land_boundary_passes k ?M ?p (-1, 0, 47/4, 1/2))) [0..<11]
          = replicate 11 (Some (-1))"
    by code_simp
  moreover have "land_boundary_loop ?M ?p (-1, 0, 47/4, 1/2) = Some (Inr (0, 0, 1/4, 1/2))"
    by (simp add: land_boundary_loop_exit land_boundary_loop_again land_boundary_pass_def
        ChannelModel_def ChannelReader_def mock_particle_def rbind_simps)
  moreover have "fvcom_update_particle ?M 0 ?p () = Some (Inr (mock_particle (1/4) (1/2) (1/2), ()))"
    by (simp add: fvcom_update_particle_def sum_contributions_def locate_new_position_def
        commit_position_def land_boundary_loop_exit land_boundary_loop_again
        land_boundary_pass_def ChannelModel_def ChannelReader_def reset_def mock_particle_def
        rbind_simps)
  moreover have "in_domain (mock_particle (1/4) (1/2) (1/2))"
    by (simp add: mock_particle_def)
  ultimately show ?thesis by blast
qed


subsection \<open>Open boundary exit and diagnostics\<close>

lemma get_diagnostics_loop_entries:
  "get_diagnostics_loop R t ps d = Some (Inr D) \<Longrightarrow>
     diag_xpos D = diag_xpos d @ map xpos ps \<and>
     diag_ypos D = diag_ypos d @ map ypos ps \<and>
     diag_zpos D = diag_zpos d @ map zpos ps \<and>
     diag_host_horizontal_elem D = diag_host_horizontal_elem d @ map host_horizontal_elem ps \<and>
     length (diag_h D) = length (diag_h d) + length ps \<and>
     length (diag_zeta D) = length (diag_zeta d) + length ps"
proof (induction ps arbitrary: d)
  case Nil
  then show ?case by simp
next
  case (Cons p ps)
  from Cons.prems obtain h zeta where
    "get_diagnostics_loop R t ps
       (d\<lparr>diag_xpos := diag_xpos d @ [xpos p], diag_ypos := diag_ypos d @ [ypos p],
          diag_zpos := diag_zpos d @ [zpos p],
          diag_host_horizontal_elem := diag_host_horizontal_elem d @ [host_horizontal_elem p],
          diag_h := diag_h d @ [h], diag_zeta := diag_zeta d @ [zeta]\<rparr>) = Some (Inr D)"
    by (auto simp: rbind_def Let_def split: option.splits sum.splits)
  from Cons.IH [OF this] show ?case by simp
qed

text \<open>
  C6 (as amended). For every particle in the domain whose post-step crossing test
  returns the open boundary code (\<open>find_host\<close> flag \<open>-2\<close>), a single call to
  \<open>update\<close> marks that particle out of the domain in that same step, its position and
  host left as they were. \<open>get_diagnostics\<close> does not test \<open>in_domain\<close>: whenever it
  returns, each of its lists holds one entry for every particle of the set, in order,
  so the particle goes on contributing its last position.
\<close>

theorem C6_open_boundary_exit:
  assumes "in_domain p"
    and "sum_contributions M t p g = Some (Inr (Some d, g'))"
    and "locate_new_position M p d = Some (Inr (-2, host, x, y))"
  shows "fvcom_update_particle M t p g = Some (Inr (p\<lparr>in_domain := False\<rparr>, g'))
       \<and> (\<forall>t' ps D. fvcom_get_diagnostics M t' ps = Some (Inr D) \<longrightarrow>
            diag_xpos D = map xpos ps \<and> diag_ypos D = map ypos ps \<and>
            diag_zpos D = map zpos ps \<and>
            diag_host_horizontal_elem D = map host_horizontal_elem ps \<and>
            length (diag_h D) = length ps \<and> length (diag_zeta D) = length ps)"
proof -
  have "fvcom_update_particle M t p g = Some (Inr (p\<lparr>in_domain := False\<rparr>, g'))"
    using assms by (simp add: fvcom_update_particle_def commit_position_def rbind_simps)
  moreover have "diag_xpos D = map xpos ps \<and> diag_ypos D = map ypos ps \<and>
            diag_zpos D = map zpos ps \<and>
            diag_host_horizontal_elem D = map host_horizontal_elem ps \<and>
            length (diag_h D) = length ps \<and> length (diag_zeta D) = length ps"
    if "fvcom_get_diagnostics M t' ps = Some (Inr D)" for t' ps D
    using get_diagnostics_loop_entries [OF that [unfolded fvcom_get_diagnostics_def]] by simp
  ultimately show ?thesis by blast
qed

lemma channel_open_exit:
  "fvcom_update_particle (ChannelModel 0 1 0) 0 (mock_particle (1/2) (1/2) (1/2)) ()
     = Some (Inr ((mock_particle (1/2) (1/2) (1/2))\<lparr>in_domain := False\<rparr>, ()))"
   by (simp add: fvcom_update_particle_def sum_contributions_def locate_new_position_def
        commit_position_def land_boundary_loop_exit ChannelModel_def ChannelReader_def
        reset_def mock_particle_def rbind_simps)

theorem C6_open_boundary_exit_witness:
  "in_domain (mock_particle (1/2) (1/2) (1/2))
   \<and> locate_new_position (ChannelModel 0 1 0) (mock_particle (1/2) (1/2) (1/2))
        \<lparr>delta_x = 0, delta_y = 1, delta_z = 0\<rparr> = Some (Inr (-2, 0, 1/2, 3/2))
   \<and> fvcom_update_particle (ChannelModel 0 1 0) 0 (mock_particle (1/2) (1/2) (1/2)) ()
       = Some (Inr ((mock_particle (1/2) (1/2) (1/2))\<lparr>in_domain := False\<rparr>, ()))"
proof -
  let ?M = "ChannelModel 0 1 0"
  let ?p = "mock_particle (1/2) (1/2) (1/2)"
  have a: "in_domain ?p" by (simp add: mock_particle_def)
  have b: "sum_contributions ?M 0 ?p () = Some (Inr (Some \<lparr>delta_x = 0, delta_y = 1, delta_z = 0\<rparr>, ()))"
    by (simp add: sum_contributions_def ChannelModel_def reset_def rbind_simps)
  have c: "locate_new_position ?M ?p \<lparr>delta_x = 0, delta_y = 1, delta_z = 0\<rparr>
             = Some (Inr (-2, 0, 1/2, 3/2))"
    by (simp add: locate_new_position_def land_boundary_loop_exit ChannelModel_def
        ChannelReader_def mock_particle_def rbind_simps)
  from C6_open_boundary_exit [OF a b c] a c show ?thesis by blast
qed

text \<open>
  The claim as stated fails in its second half: after the step that flags the
  particle, \<open>get_diagnostics\<close> on the particle set still returns its entry.
\<close>

theorem C6_counterexample:
  "fvcom_update (ChannelModel 0 1 0) 0 [mock_particle (1/2) (1/2) (1/2)] ()
     = Some ([(mock_particle (1/2) (1/2) (1/2))\<lparr>in_domain := False\<rparr>], Inr ())
   \<and> fvcom_get_diagnostics (ChannelModel 0 1 0) 1
        [(mock_particle (1/2) (1/2) (1/2))\<lparr>in_domain := False\<rparr>]
     = Some (Inr \<lparr>diag_xpos = [1/2], diag_ypos = [1/2], diag_zpos = [1/2],
                   diag_host_horizontal_elem = [0], diag_h = [0], diag_zeta = [1]\<rparr>)"
   by (simp add: channel_open_exit)
    (simp add: fvcom_get_diagnostics_def ChannelModel_def ChannelReader_def
        mock_particle_def rbind_simps)

subsection \<open>Seed creation\<close>








subsection \<open>The host search and the velocity of the FVCOM reader\<close>

lemma star_phi_1: "get_phi StarGrid (5/2) (5/2) 0 = Inr (- (2/3), 5/6, 5/6)"
  by code_simp

lemma star_phi_2: "get_phi StarGrid (5/2) (5/2) 1 = Inr (1/6, 2/3, 1/6)"
  by code_simp

lemma star_phi_3: "get_phi StarGrid 1 1 0 = Inr (1/3, 1/3, 1/3)"
  by code_simp

lemma star_count: "count_land_boundaries StarGrid 1 = Inr 2" "count_land_boundaries StarGrid 0 = Inr 0"
  by code_simp+

lemma star_nbe: "get2 (fv_nbe StarGrid) 0 0 = Inr 1"
  by code_simp

text \<open>
  C1. The claim: when the local search identifies a host element, it returns \<open>-1\<close> if
  the element has two or more land edges and the element's index otherwise. The code
  tests \<^verbatim>\<open>n_host_land_boundaries\<close>, which is never assigned, instead of the count
  \<^verbatim>\<open>n_land_boundaries\<close> it has just made. On the grid of four elements, element 1
  has two land edges and element 0 has none; whatever value \<open>n\<close> the unassigned
  variable holds, the search returns \<open>1\<close> (for \<open>n < 2\<close>) or \<open>-1\<close> at a point of
  element 1 and \<open>0\<close> (for \<open>n < 2\<close>) or \<open>-1\<close> at a point of element 0: one of the two
  answers contradicts the claim.
\<close>

theorem C1_uninitialised_land_boundary_count:
  "count_land_boundaries StarGrid 1 = Inr 2 \<and> count_land_boundaries StarGrid 0 = Inr 0
   \<and> (\<forall>n. find_host_using_local_search StarGrid n (5/2) (5/2) 0
              = Some (Inr (if n < 2 then 1 else -1)))
   \<and> (\<forall>n. find_host_using_local_search StarGrid n 1 1 0
              = Some (Inr (if n < 2 then 0 else -1)))"
proof -
  have a: "find_host_using_local_search StarGrid n (5/2) (5/2) 1
             = Some (Inr (if n < 2 then 1 else -1))" for n
    by (subst find_host_using_local_search.simps)
      (simp add: star_phi_2 star_count EPSILON_def)
  have b: "find_host_using_local_search StarGrid n (5/2) (5/2) 0
             = Some (Inr (if n < 2 then 1 else -1))" for n
    by (subst find_host_using_local_search.simps)
      (simp add: star_phi_1 star_nbe EPSILON_def a)
  have c: "find_host_using_local_search StarGrid n 1 1 0
             = Some (Inr (if n < 2 then 0 else -1))" for n
    by (subst find_host_using_local_search.simps)
      (simp add: star_phi_3 star_count EPSILON_def)
  show ?thesis using b c star_count by simp
qed

text \<open>
  C2. The claim: in an element without a boundary edge, at a depth between two layers,
  the velocity is the least squares value built from the host centre and the centres
  of the three neighbours. The code fills the neighbour entries from the column of the
  host. On the grid of four elements with \<open>u = x\<close>, \<open>v = y\<close>, at \<open>(3/2, 5/4)\<close> in
  element 0 and at depth \<open>-1/2\<close> between the two layers, the code returns the centre
  value \<open>(1, 1)\<close> where the claim's formula gives \<open>(3/2, 5/4)\<close>; at depth \<open>-1/8\<close>,
  above the top layer, the sibling branch returns \<open>(3/2, 5/4)\<close>.
\<close>

theorem C2_neighbour_values_read_from_host:
  "get_phi StarGrid (3/2) (5/4) 0 = Inr (1/12, 1/2, 5/12)
   \<and> read_neighbours StarGrid 0 = Inr (1, 2, 3)
   \<and> find_sigma_layers StarGrid (1/12, 1/2, 5/12) 0 (-1/2) = Inr (Between 1 0 (-3/4) (-1/4))
   \<and> get_uv_velocity_using_linear_least_squares_interpolation StarGrid 1800 (3/2) (5/4) (-1/2) 0
       = Inr (1, 1)
   \<and> lls_value_spec StarGrid (fv_u_last StarGrid) (fv_u_next StarGrid) 1800 (3/2) (5/4) (-1/2)
       0 1 0 (-3/4) (-1/4) = Inr (3/2)
   \<and> lls_value_spec StarGrid (fv_v_last StarGrid) (fv_v_next StarGrid) 1800 (3/2) (5/4) (-1/2)
       0 1 0 (-3/4) (-1/4) = Inr (5/4)
   \<and> get_uv_velocity_using_linear_least_squares_interpolation StarGrid 1800 (3/2) (5/4) (-1/8) 0
       = Inr (3/2, 5/4)"
  by code_simp

subsection \<open>Reading frames\<close>

lemma ebind_simps:
  "ebind (Inl e) f = Inl e"
  "ebind (Inr v) f = f v"
  by (simp_all add: ebind_def)

lemma ebind_Inr_iff: "ebind m f = Inr y \<longleftrightarrow> (\<exists>v. m = Inr v \<and> f v = Inr y)"
  by (cases m) (simp_all add: ebind_def)

lemma linear_fraction_in_frame:
  assumes "t1 \<le> t" "t < t2"
  shows "0 \<le> get_linear_fraction t t1 t2" "get_linear_fraction t t1 t2 < 1"
  using assms by (simp_all add: get_linear_fraction_def)

lemma set1_length: "set1 xs i v = Inr ys \<Longrightarrow> length ys = length xs"
  by (auto simp: set1_def Let_def split: if_splits)

lemma interp_levels_length:
  "interp_levels f a b xs idx = Inr ys \<Longrightarrow> length ys = length xs"
proof (induction idx arbitrary: xs)
  case Nil
  then show ?case by simp
next
  case (Cons i idx)
  then show ?case
    by (auto simp: ebind_Inr_iff dest!: set1_length)
qed

lemma interp_levels_other:
  "interp_levels f a b xs idx = Inr ys \<Longrightarrow> \<forall>i \<in> set idx. 0 \<le> i \<Longrightarrow> 0 \<le> k \<Longrightarrow>
     k \<notin> set idx \<Longrightarrow> ys ! nat k = xs ! nat k"
proof (induction idx arbitrary: xs)
  case Nil
  then show ?case by simp
next
  case (Cons i idx)
  from Cons.prems(1) obtain va vb xs1 where
    s: "set1 xs i (linear_interp f va vb) = Inr xs1" and
    rest: "interp_levels f a b xs1 idx = Inr ys"
    by (auto simp: ebind_Inr_iff)
  from Cons.prems have "ys ! nat k = xs1 ! nat k"
    using Cons.IH [OF rest] by simp
  moreover from s Cons.prems have "xs1 ! nat k = xs ! nat k"
    by (auto simp: set1_def Let_def split: if_splits)
  ultimately show ?case by simp
qed

lemma interp_levels_idem:
  "interp_levels f a b xs idx = Inr ys \<Longrightarrow> \<forall>i \<in> set idx. 0 \<le> i \<Longrightarrow> distinct idx \<Longrightarrow>
     interp_levels f a b ys idx = Inr ys"
proof (induction idx arbitrary: xs)
  case Nil
  then show ?case by simp
next
  case (Cons i idx)
  from Cons.prems(1) obtain va vb xs1 where
    ga: "get1 a i = Inr va" and gb: "get1 b i = Inr vb" and
    s: "set1 xs i (linear_interp f va vb) = Inr xs1" and
    rest: "interp_levels f a b xs1 idx = Inr ys"
    by (auto simp: ebind_Inr_iff)
  from Cons.prems have i0: "0 \<le> i" and inot: "i \<notin> set idx" and
    pos: "\<forall>j \<in> set idx. 0 \<le> j" and dist: "distinct idx"
    by auto
  have len: "length ys = length xs1" using interp_levels_length [OF rest] .
  from s i0 have ilt: "i < int (length xs)" and xs1: "xs1 = xs[nat i := linear_interp f va vb]"
    by (auto simp: set1_def Let_def split: if_splits)
  have "ys ! nat i = xs1 ! nat i"
    using interp_levels_other [OF rest pos i0 inot] .
  also have "\<dots> = linear_interp f va vb"
    using xs1 ilt i0 by simp
  finally have yi: "ys ! nat i = linear_interp f va vb" .
  have "ys[nat i := linear_interp f va vb] = ys"
    unfolding yi [symmetric] by (rule list_update_id)
  then have "set1 ys i (linear_interp f va vb) = Inr ys"
    using i0 ilt len xs1 by (simp add: set1_def Let_def)
  moreover have "interp_levels f a b ys idx = Inr ys"
    using Cons.IH [OF rest pos dist] .
  ultimately show ?case
    using ga gb by (simp add: ebind_simps)
qed

lemma upto_nonneg_distinct: "(\<forall>i \<in> set [0..n]. 0 \<le> i) \<and> distinct [0..n]"
  by simp



lemma gotm_interpolate_in_time_Inr:
  assumes "gotm_interpolate_in_time t g = Inr g'"
  shows "\<exists>tf zl0 zn0 Z K.
    get_linear_fraction_safe t (gt_time_last g) (gt_time_next g) = Inr tf \<and>
    get1 (gt_zlev_last g) 0 = Inr zl0 \<and> get1 (gt_zlev_next g) 0 = Inr zn0 \<and>
    interp_levels tf (gt_zlev_last g) (gt_zlev_next g) (gt_zlev g) [0..gt_n_zlev g - 1] = Inr Z \<and>
    interp_levels tf (gt_kh_last g) (gt_kh_next g) (gt_kh g) [0..gt_n_zlev g - 1] = Inr K \<and>
    g' = g\<lparr>gt_time_fraction := tf, gt_H := - linear_interp tf zl0 zn0,
                  gt_zeta := linear_interp tf (gt_zeta_last g) (gt_zeta_next g),
                  gt_zlev := Z, gt_kh := K\<rparr>"
  using assms
  apply (simp only: gotm_interpolate_in_time_def ebind_Inr_iff Let_def sum.inject)
  apply (elim exE conjE)
  apply blast
  done

lemma gotm_interpolate_in_time_frames:
  "gotm_interpolate_in_time t g = Inr g' \<Longrightarrow>
     gt_mediator g' = gt_mediator g \<and> gt_n_zlay g' = gt_n_zlay g \<and> gt_n_zlev g' = gt_n_zlev g \<and>
     gt_time_last g' = gt_time_last g \<and> gt_time_next g' = gt_time_next g \<and>
     gt_zeta_last g' = gt_zeta_last g \<and> gt_zeta_next g' = gt_zeta_next g \<and>
     gt_zlev_last g' = gt_zlev_last g \<and> gt_zlev_next g' = gt_zlev_next g \<and>
     gt_kh_last g' = gt_kh_last g \<and> gt_kh_next g' = gt_kh_next g"
  by (auto simp: gotm_interpolate_in_time_def ebind_Inr_iff Let_def)

lemma gotm_interpolate_in_time_idem:
  assumes "gotm_interpolate_in_time t g = Inr g'"
  shows "gotm_interpolate_in_time t g' = Inr g'"
proof -
  from gotm_interpolate_in_time_Inr [OF assms] obtain tf zl0 zn0 Z K where
    tf: "get_linear_fraction_safe t (gt_time_last g) (gt_time_next g) = Inr tf" and
    zl0: "get1 (gt_zlev_last g) 0 = Inr zl0" and zn0: "get1 (gt_zlev_next g) 0 = Inr zn0" and
    Z: "interp_levels tf (gt_zlev_last g) (gt_zlev_next g) (gt_zlev g) [0..gt_n_zlev g - 1] = Inr Z" and
    K: "interp_levels tf (gt_kh_last g) (gt_kh_next g) (gt_kh g) [0..gt_n_zlev g - 1] = Inr K" and
    g': "g' = g\<lparr>gt_time_fraction := tf, gt_H := - linear_interp tf zl0 zn0,
                  gt_zeta := linear_interp tf (gt_zeta_last g) (gt_zeta_next g),
                  gt_zlev := Z, gt_kh := K\<rparr>"
    by blast
  have Z': "interp_levels tf (gt_zlev_last g) (gt_zlev_next g) Z [0..gt_n_zlev g - 1] = Inr Z"
    using interp_levels_idem [OF Z] upto_nonneg_distinct by blast
  have K': "interp_levels tf (gt_kh_last g) (gt_kh_next g) K [0..gt_n_zlev g - 1] = Inr K"
    using interp_levels_idem [OF K] upto_nonneg_distinct by blast
  have sel: "gt_time_last g' = gt_time_last g" "gt_time_next g' = gt_time_next g"
    "gt_zlev_last g' = gt_zlev_last g" "gt_zlev_next g' = gt_zlev_next g"
    "gt_kh_last g' = gt_kh_last g" "gt_kh_next g' = gt_kh_next g"
    "gt_zeta_last g' = gt_zeta_last g" "gt_zeta_next g' = gt_zeta_next g"
    "gt_n_zlev g' = gt_n_zlev g" "gt_zlev g' = Z" "gt_kh g' = K"
    by (simp_all add: g')
  have "gotm_interpolate_in_time t g' =
          Inr (g'\<lparr>gt_time_fraction := tf, gt_H := - linear_interp tf zl0 zn0,
                  gt_zeta := linear_interp tf (gt_zeta_last g) (gt_zeta_next g),
                  gt_zlev := Z, gt_kh := K\<rparr>)"
    by (simp only: gotm_interpolate_in_time_def sel tf zl0 zn0 Z' K' ebind_simps Let_def)
  also have "g'\<lparr>gt_time_fraction := tf, gt_H := - linear_interp tf zl0 zn0,
                  gt_zeta := linear_interp tf (gt_zeta_last g) (gt_zeta_next g),
                  gt_zlev := Z, gt_kh := K\<rparr> = g'"
    by (simp add: g')
  finally show ?thesis .
qed

lemma set1_in_range:
  "0 \<le> i \<Longrightarrow> i < int (length xs) \<Longrightarrow> set1 xs i v = Inr (xs[nat i := v])"
  by (simp add: set1_def)

lemma get1_in_range:
  "0 \<le> i \<Longrightarrow> i < int (length xs) \<Longrightarrow> get1 xs i = Inr (xs ! nat i)"
  by (simp add: get1_def)

lemma interp_levels_returns:
  assumes "\<forall>i \<in> set idx. 0 \<le> i \<and> i < int (length a) \<and> i < int (length b) \<and> i < int (length xs)"
  shows "\<exists>ys. interp_levels f a b xs idx = Inr ys"
  using assms
proof (induction idx arbitrary: xs)
  case Nil
  then show ?case by simp
next
  case (Cons i idx)
  let ?xs1 = "xs[nat i := linear_interp f (a ! nat i) (b ! nat i)]"
  from Cons.prems have i: "0 \<le> i" "i < int (length a)" "i < int (length b)" "i < int (length xs)"
    by simp_all
  have "\<forall>j \<in> set idx. 0 \<le> j \<and> j < int (length a) \<and> j < int (length b) \<and> j < int (length ?xs1)"
    using Cons.prems by simp
  from Cons.IH [OF this] obtain ys where "interp_levels f a b ?xs1 idx = Inr ys" ..
  then show ?case
    using i by (simp add: get1_in_range set1_in_range ebind_simps)
qed

lemma linear_fraction_safe_in_frame:
  assumes "t1 \<le> t" "t < t2"
  shows "get_linear_fraction_safe t t1 t2 = Inr ((t - t1) / (t2 - t1))"
  using assms by (simp add: get_linear_fraction_safe_def Let_def)

lemma gotm_interpolate_in_time_returns:
  assumes "gt_time_last g \<le> t" "t < gt_time_next g" "1 \<le> gt_n_zlev g"
    and "int (length (gt_zlev_last g)) = gt_n_zlev g" "int (length (gt_zlev_next g)) = gt_n_zlev g"
    and "int (length (gt_zlev g)) = gt_n_zlev g"
    and "int (length (gt_kh_last g)) = gt_n_zlev g" "int (length (gt_kh_next g)) = gt_n_zlev g"
    and "int (length (gt_kh g)) = gt_n_zlev g"
  shows "\<exists>g'. gotm_interpolate_in_time t g = Inr g'"
proof -
  let ?tf = "(t - gt_time_last g) / (gt_time_next g - gt_time_last g)"
  have z0: "get1 (gt_zlev_last g) 0 = Inr (gt_zlev_last g ! 0)"
    "get1 (gt_zlev_next g) 0 = Inr (gt_zlev_next g ! 0)"
    using assms by (simp_all add: get1_def)
  obtain Z where Z: "interp_levels ?tf (gt_zlev_last g) (gt_zlev_next g) (gt_zlev g)
      [0..gt_n_zlev g - 1] = Inr Z"
    using interp_levels_returns [of "[0..gt_n_zlev g - 1]" "gt_zlev_last g" "gt_zlev_next g"
        "gt_zlev g" ?tf] assms by auto
  obtain K where K: "interp_levels ?tf (gt_kh_last g) (gt_kh_next g) (gt_kh g)
      [0..gt_n_zlev g - 1] = Inr K"
    using interp_levels_returns [of "[0..gt_n_zlev g - 1]" "gt_kh_last g" "gt_kh_next g"
        "gt_kh g" ?tf] assms by auto
  show ?thesis
    by (simp only: gotm_interpolate_in_time_def linear_fraction_safe_in_frame [OF assms(1,2)]
        z0 Z K ebind_simps Let_def) blast
qed

lemma read_data_in_frame:
  assumes "fv_time_last r \<le> t" "t < fv_time_next r"
  shows "read_data Med t r = Inr r"
  using linear_fraction_in_frame [OF assms]
  by (simp add: read_data_def Let_def)

lemma gotm_read_data_in_frame:
  assumes "gt_time_last g \<le> t" "t < gt_time_next g"
  shows "gotm_read_data Med' t g = gotm_interpolate_in_time t g"
  using linear_fraction_in_frame [OF assms]
  by (simp add: gotm_read_data_def Let_def ebind_simps)

lemma gotm_read_data_frames:
  assumes "gt_time_last g \<le> t" "t < gt_time_next g" "gotm_read_data Med' t g = Inr g'"
  shows "gt_mediator g' = gt_mediator g \<and>
         gt_time_last g' = gt_time_last g \<and> gt_time_next g' = gt_time_next g \<and>
         gt_zeta_last g' = gt_zeta_last g \<and> gt_zeta_next g' = gt_zeta_next g \<and>
         gt_zlev_last g' = gt_zlev_last g \<and> gt_zlev_next g' = gt_zlev_next g \<and>
         gt_kh_last g' = gt_kh_last g \<and> gt_kh_next g' = gt_kh_next g"
proof -
  have "gotm_interpolate_in_time t g = Inr g'"
    using assms(3) gotm_read_data_in_frame [OF assms(1,2)] by simp
  from gotm_interpolate_in_time_frames [OF this] show ?thesis by simp
qed

lemma gotm_read_data_idem:
  assumes "gt_time_last g \<le> t" "t < gt_time_next g"
  shows "ebind (gotm_read_data Med' t g) (gotm_read_data Med' t) = gotm_read_data Med' t g"
proof (cases "gotm_interpolate_in_time t g")
  case (Inl e)
  then show ?thesis
    using gotm_read_data_in_frame [OF assms] by (simp add: ebind_simps)
next
  case (Inr g')
  from gotm_interpolate_in_time_frames [OF Inr] assms
  have "gt_time_last g' \<le> t" "t < gt_time_next g'" by simp_all
  then have "gotm_read_data Med' t g' = gotm_interpolate_in_time t g'"
    by (rule gotm_read_data_in_frame)
  then show ?thesis
    using gotm_read_data_in_frame [OF assms, of Med'] Inr gotm_interpolate_in_time_idem [OF Inr]
    by (simp add: ebind_simps)
qed

text \<open>
  C5. For every time \<open>t\<close> with \<open>t_last \<le> t < t_next\<close>, \<open>read_data(t)\<close> does not
  advance the reading frame. For the FVCOM reader the whole state is unchanged. For
  the GOTM reader, whenever the call returns, the mediator, \<open>t_last\<close>, \<open>t_next\<close> and
  all snapshot arrays are unchanged (the call recomputes the fields interpolated to
  \<open>t\<close>), and it does return when the arrays hold \<open>n_zlev \<ge> 1\<close> entries each, as
  the constructor allocates them. For both, calling \<open>read_data(t)\<close> twice in
  succession gives what calling it once gives.
\<close>

theorem C5_read_data_within_frame:
  "(fv_time_last r \<le> t \<and> t < fv_time_next r \<longrightarrow>
      read_data Med t r = Inr r \<and>
      ebind (read_data Med t r) (read_data Med t) = read_data Med t r)
   \<and> (gt_time_last g \<le> t \<and> t < gt_time_next g \<longrightarrow>
      (\<forall>g'. gotm_read_data Med' t g = Inr g' \<longrightarrow>
         gt_mediator g' = gt_mediator g \<and>
         gt_time_last g' = gt_time_last g \<and> gt_time_next g' = gt_time_next g \<and>
         gt_zeta_last g' = gt_zeta_last g \<and> gt_zeta_next g' = gt_zeta_next g \<and>
         gt_zlev_last g' = gt_zlev_last g \<and> gt_zlev_next g' = gt_zlev_next g \<and>
         gt_kh_last g' = gt_kh_last g \<and> gt_kh_next g' = gt_kh_next g) \<and>
      ebind (gotm_read_data Med' t g) (gotm_read_data Med' t) = gotm_read_data Med' t g \<and>
      (1 \<le> gt_n_zlev g \<and>
       int (length (gt_zlev_last g)) = gt_n_zlev g \<and>
       int (length (gt_zlev_next g)) = gt_n_zlev g \<and>
       int (length (gt_zlev g)) = gt_n_zlev g \<and>
       int (length (gt_kh_last g)) = gt_n_zlev g \<and>
       int (length (gt_kh_next g)) = gt_n_zlev g \<and>
       int (length (gt_kh g)) = gt_n_zlev g \<longrightarrow>
       (\<exists>g'. gotm_read_data Med' t g = Inr g')))"
proof -
  have fv: "read_data Med t r = Inr r \<and>
      ebind (read_data Med t r) (read_data Med t) = read_data Med t r"
    if "fv_time_last r \<le> t \<and> t < fv_time_next r"
    using that read_data_in_frame [of r t Med] by (simp add: ebind_simps)
  have gt1: "gt_mediator g' = gt_mediator g \<and>
         gt_time_last g' = gt_time_last g \<and> gt_time_next g' = gt_time_next g \<and>
         gt_zeta_last g' = gt_zeta_last g \<and> gt_zeta_next g' = gt_zeta_next g \<and>
         gt_zlev_last g' = gt_zlev_last g \<and> gt_zlev_next g' = gt_zlev_next g \<and>
         gt_kh_last g' = gt_kh_last g \<and> gt_kh_next g' = gt_kh_next g"
    if "gt_time_last g \<le> t \<and> t < gt_time_next g" "gotm_read_data Med' t g = Inr g'" for g'
    using that gotm_read_data_frames [of g t Med' g'] by blast
  have gt2: "ebind (gotm_read_data Med' t g) (gotm_read_data Med' t) = gotm_read_data Med' t g"
    if "gt_time_last g \<le> t \<and> t < gt_time_next g"
    using that gotm_read_data_idem [of g t Med'] by blast
  have gt3: "\<exists>g'. gotm_read_data Med' t g = Inr g'"
    if "gt_time_last g \<le> t \<and> t < gt_time_next g" "1 \<le> gt_n_zlev g"
      "int (length (gt_zlev_last g)) = gt_n_zlev g"
      "int (length (gt_zlev_next g)) = gt_n_zlev g"
      "int (length (gt_zlev g)) = gt_n_zlev g"
      "int (length (gt_kh_last g)) = gt_n_zlev g"
      "int (length (gt_kh_next g)) = gt_n_zlev g"
      "int (length (gt_kh g)) = gt_n_zlev g"
    using that gotm_interpolate_in_time_returns [of g t]
      gotm_read_data_in_frame [of g t Med'] by simp
  show ?thesis
    using fv gt1 gt2 gt3 by blast
qed

theorem C5_read_data_within_frame_witness:
  "fv_time_last StarGrid \<le> 1800 \<and> 1800 < fv_time_next StarGrid
   \<and> read_data StillMediator 1800 StarGrid = Inr StarGrid
   \<and> gt_time_last Column \<le> 1800 \<and> 1800 < gt_time_next Column
   \<and> gotm_read_data StillMediator 1800 Column
       = Inr (Column\<lparr>gt_time_fraction := 1/2, gt_zeta := 1/10, gt_kh := [0, 1/50, 1/100]\<rparr>)
   \<and> gotm_read_data StillMediator 1800
         (Column\<lparr>gt_time_fraction := 1/2, gt_zeta := 1/10, gt_kh := [0, 1/50, 1/100]\<rparr>)
       = Inr (Column\<lparr>gt_time_fraction := 1/2, gt_zeta := 1/10, gt_kh := [0, 1/50, 1/100]\<rparr>)"
proof -
  let ?C = "Column\<lparr>gt_time_fraction := 1/2, gt_zeta := 1/10, gt_kh := [0, 1/50, 1/100]\<rparr>"
  have f: "fv_time_last StarGrid \<le> 1800 \<and> 1800 < fv_time_next StarGrid"
    by (simp add: StarGrid_def)
  have g: "gt_time_last Column \<le> 1800 \<and> 1800 < gt_time_next Column"
    by (simp add: Column_def)
  have once: "gotm_read_data StillMediator 1800 Column = Inr ?C"
    by code_simp
  note th = C5_read_data_within_frame [where r = StarGrid and t = 1800 and g = Column
      and Med = StillMediator and Med' = StillMediator]
  from th f have a: "read_data StillMediator 1800 StarGrid = Inr StarGrid" by blast
  from th g have "ebind (gotm_read_data StillMediator 1800 Column)
      (gotm_read_data StillMediator 1800) = gotm_read_data StillMediator 1800 Column"
    by blast
  then have twice: "gotm_read_data StillMediator 1800 ?C = Inr ?C"
    by (simp only: once ebind_simps)
  from f g a once twice show ?thesis by blast
qed

end
